theory Spec2Isabelle
  imports Main "HOL-Library.Char_ord" "HOL-Library.List_Lexorder" "HOL-Library.AList"
begin

section \<open>Errors\<close>

text \<open>
  Go errors as values. \<open>NetError\<close> stands for any error implementing \<^verbatim>\<open>net.Error\<close>
  (the flag is what its \<^verbatim>\<open>Timeout()\<close> method answers), \<open>ErrorString\<close> for
  \<^verbatim>\<open>errors.New\<close> and \<^verbatim>\<open>fmt.Errorf\<close> without \<^verbatim>\<open>%w\<close>, \<open>Wrapped p e\<close> for
  \<^verbatim>\<open>fmt.Errorf("p: %w", e)\<close> and \<open>BridgeError\<close> for \<^verbatim>\<open>&types.BridgeError{Operation, Message, Err}\<close>.
  \<open>Panic\<close> marks a run-time panic (nil dereference, index out of range).
\<close>

datatype error =
    NetError bool string
  | ErrorString string
  | Wrapped string error
  | BridgeError string string error
  | Panic string

text \<open>
  \<^verbatim>\<open>errors.As(err, &netErr)\<close> follows the \<^verbatim>\<open>Unwrap\<close> chain. \<^verbatim>\<open>BridgeError.Unwrap\<close> returns
  the sentinel \<^verbatim>\<open>ErrBridgeInit\<close> (an \<^verbatim>\<open>errors.New\<close> value), not the wrapped error.
\<close>

fun errors_As_net :: "error \<Rightarrow> bool option" where
  "errors_As_net (NetError t m) = Some t"
| "errors_As_net (ErrorString m) = None"
| "errors_As_net (Wrapped p e) = errors_As_net e"
| "errors_As_net (BridgeError operation m e) = None"
| "errors_As_net (Panic m) = None"

fun isRetryableError :: "error option \<Rightarrow> bool" where
  "isRetryableError None = False"
| "isRetryableError (Some err) =
     (case errors_As_net err of Some timeout \<Rightarrow> timeout | None \<Rightarrow> False)"

section \<open>Strings\<close>

text \<open>
  The functions of package \<^verbatim>\<open>strings\<close> and \<^verbatim>\<open>fmt\<close> the bridge calls, on ASCII text:
  case mapping touches the letters A to Z only, \<^verbatim>\<open>TrimSpace\<close> strips the six ASCII
  white-space characters, and a string's width is its length.
\<close>

definition ToLower_char :: "char \<Rightarrow> char" where
  "ToLower_char c =
     (case map_of (zip ''ABCDEFGHIJKLMNOPQRSTUVWXYZ'' ''abcdefghijklmnopqrstuvwxyz'') c of
        Some d \<Rightarrow> d | None \<Rightarrow> c)"

definition ToUpper_char :: "char \<Rightarrow> char" where
  "ToUpper_char c =
     (case map_of (zip ''abcdefghijklmnopqrstuvwxyz'' ''ABCDEFGHIJKLMNOPQRSTUVWXYZ'') c of
        Some d \<Rightarrow> d | None \<Rightarrow> c)"

definition ToLower :: "string \<Rightarrow> string" where
  "ToLower s = map ToLower_char s"

definition ToUpper :: "string \<Rightarrow> string" where
  "ToUpper s = map ToUpper_char s"

fun Contains :: "string \<Rightarrow> string \<Rightarrow> bool" where
  "Contains [] substr = (substr = [])"
| "Contains (c # s) substr = (take (length substr) (c # s) = substr \<or> Contains s substr)"

text \<open>\<^verbatim>\<open>strings.ReplaceAll(s, old, new)\<close> for a non-empty \<open>old\<close>, scanning left to right.\<close>

function ReplaceAll :: "string \<Rightarrow> string \<Rightarrow> string \<Rightarrow> string" where
  "ReplaceAll s old new =
     (if s = [] then []
      else if old \<noteq> [] \<and> take (length old) s = old
        then new @ ReplaceAll (drop (length old) s) old new
      else hd s # ReplaceAll (tl s) old new)"
  by pat_completeness auto
termination
  by (relation "measure (\<lambda>(s, old, new). length s)") (auto simp: neq_Nil_conv)

definition isSpace :: "char \<Rightarrow> bool" where
  "isSpace c = (c \<in> set [CHR '' '', CHR 0x09, CHR 0x0A, CHR 0x0B, CHR 0x0C, CHR 0x0D])"

definition TrimSpace :: "string \<Rightarrow> string" where
  "TrimSpace s = rev (dropWhile isSpace (rev (dropWhile isSpace s)))"

text \<open>\<^verbatim>\<open>strings.SplitN(s, "/", 2)\<close>: one part when there is no slash, else the text
  before the first slash and everything after it.\<close>

definition SplitN_slash_2 :: "string \<Rightarrow> string list" where
  "SplitN_slash_2 s =
     (if CHR ''/'' \<in> set s
      then [takeWhile (\<lambda>c. c \<noteq> CHR ''/'') s, tl (dropWhile (\<lambda>c. c \<noteq> CHR ''/'') s)]
      else [s])"

text \<open>\<^verbatim>\<open>fmt.Sprintf("%-*s", w, s)\<close>: left-justified, padded with blanks to width \<open>w\<close>,
  never truncated.\<close>

definition pad_right :: "nat \<Rightarrow> string \<Rightarrow> string" where
  "pad_right w s = s @ replicate (w - length s) (CHR '' '')"

text \<open>Decimal rendering of an integer, as \<^verbatim>\<open>%v\<close> and \<^verbatim>\<open>%d\<close> print an \<^verbatim>\<open>int64\<close>.\<close>

fun digits :: "nat \<Rightarrow> string" where
  "digits n = (if n < 10 then [''0123456789'' ! n] else digits (n div 10) @ [''0123456789'' ! (n mod 10)])"

definition Sprint_int :: "int \<Rightarrow> string" where
  "Sprint_int i = (if i < 0 then CHR ''-'' # digits (nat (- i)) else digits (nat i))"

declare digits.simps [simp del]
declare ReplaceAll.simps [simp del]

section \<open>Dynamic values\<close>

text \<open>
  A decoded JSON document (\<^verbatim>\<open>interface{}\<close> after \<^verbatim>\<open>json.Unmarshal\<close>). An object is an
  association list read with \<^const>\<open>map_of\<close>. Numbers decode to \<^verbatim>\<open>float64\<close>; the bridge only
  tests the dynamic type of a number and prints it, and the model carries integers.
\<close>

datatype jval =
    JNull
  | JBool bool
  | JNum int
  | JStr string
  | JArr "jval list"
  | JObj "(string \<times> jval) list"

type_synonym jobj = "(string \<times> jval) list"

text \<open>\<^verbatim>\<open>types.ToolCall\<close>, with \<^verbatim>\<open>Function.Name\<close> and \<^verbatim>\<open>Function.Arguments\<close> flattened,
  \<^verbatim>\<open>types.LLMResponse\<close> and \<^verbatim>\<open>types.Message\<close>.\<close>

record ToolCall =
  ID :: string
  Type :: string
  Name :: string
  Arguments :: jobj

record LLMResponse =
  Content :: string
  ToolCalls :: "ToolCall list"

record Message =
  Role :: string
  MContent :: string

text \<open>The map \<^verbatim>\<open>{"tool_call_id": ..., "output": ...}\<close> built for every executed call
  (\<open>output\<close> is a reserved word of the theory language).\<close>

record ToolResult =
  tool_call_id :: string
  output_text :: string

section \<open>The built-in database tool\<close>

text \<open>
  A value handed back by the SQL driver for one column. \<open>VOther\<close> is any value that is
  neither an integer, a string nor a byte slice (\<^verbatim>\<open>float64\<close>, \<^verbatim>\<open>bool\<close>, \<^verbatim>\<open>time.Time\<close>),
  carried by its \<^verbatim>\<open>%v\<close> rendering. SQL NULL is \<open>None\<close>.
\<close>

datatype sqlval =
    VInt int
  | VString string
  | VBytes string
  | VOther string

type_synonym row = "(string \<times> sqlval) list"

text \<open>
  What \<^verbatim>\<open>db.Query\<close> hands back: the outcome of \<^verbatim>\<open>rows.Columns()\<close> and, for every
  \<^verbatim>\<open>rows.Next()\<close>, the outcome of \<^verbatim>\<open>rows.Scan\<close> into the \<open>values\<close> slice.
\<close>

record Rows =
  Columns :: "error + string list"
  Scans :: "(error + sqlval option list) list"

text \<open>
  \<^verbatim>\<open>tools.DatabaseTool\<close>: the table names loaded into \<open>schemas\<close> when the tool is
  created, and the SQL engine behind \<^verbatim>\<open>t.db.Query\<close>.
\<close>

record DatabaseTool =
  schemas :: "string list"
  db_Query :: "string \<Rightarrow> error + Rows"

definition validateQuery :: "DatabaseTool \<Rightarrow> string \<Rightarrow> error option" where
  "validateQuery t query =
     (let lowerQuery = ToLower query in
      if Contains lowerQuery ''drop'' \<or> Contains lowerQuery ''alter'' \<or>
         Contains lowerQuery ''delete'' \<or> Contains lowerQuery ''update'' \<or>
         Contains lowerQuery ''insert''
      then Some (ErrorString ''only SELECT queries are allowed'')
      else if \<exists>tableName \<in> set (schemas t). Contains lowerQuery (ToLower tableName)
      then None
      else Some (ErrorString ''query must reference a valid table''))"

text \<open>The inner loop of \<^verbatim>\<open>Execute\<close>: one result row from the column names and the
  scanned values. A NULL leaves the row untouched; a byte slice is stored as a string.\<close>

definition convert_bytes :: "sqlval \<Rightarrow> sqlval" where
  "convert_bytes val = (case val of VBytes b \<Rightarrow> VString b | _ \<Rightarrow> val)"

fun scan_row :: "string list \<Rightarrow> sqlval option list \<Rightarrow> row \<Rightarrow> row" where
  "scan_row [] vals r = r"
| "scan_row (col # columns) [] r = r"
| "scan_row (col # columns) (val # vals) r =
     (case val of
        None \<Rightarrow> scan_row columns vals r
      | Some v \<Rightarrow> scan_row columns vals (AList.update col (convert_bytes v) r))"

text \<open>The loop over \<^verbatim>\<open>rows.Next()\<close>; a failing \<^verbatim>\<open>rows.Scan\<close> aborts the query.
  \<^verbatim>\<open>Scan\<close> itself rejects a destination count different from the column count.\<close>

fun scan_rows :: "string list \<Rightarrow> (error + sqlval option list) list \<Rightarrow> row list \<Rightarrow> error + row list" where
  "scan_rows columns [] results = Inr results"
| "scan_rows columns (Inl e # rest) results = Inl (Wrapped ''failed to scan row'' e)"
| "scan_rows columns (Inr vals # rest) results =
     (if length vals \<noteq> length columns
      then Inl (Wrapped ''failed to scan row'' (ErrorString ''sql: expected destination arguments in Scan''))
      else scan_rows columns rest (results @ [scan_row columns vals []]))"

text \<open>\<^verbatim>\<open>DatabaseTool.Execute\<close>. The second component is the list of statements that
  reached the SQL engine.\<close>

definition Execute :: "DatabaseTool \<Rightarrow> jobj \<Rightarrow> string list \<Rightarrow> (error + row list) \<times> string list" where
  "Execute t params executed =
     (case map_of params ''query'' of
        Some (JStr query) \<Rightarrow>
          (case validateQuery t query of
             Some e \<Rightarrow> (Inl (Wrapped ''invalid query'' e), executed)
           | None \<Rightarrow>
               (case db_Query t query of
                  Inl e \<Rightarrow> (Inl (Wrapped ''failed to execute query'' e), executed @ [query])
                | Inr rows \<Rightarrow>
                    (case Columns rows of
                       Inl e \<Rightarrow> (Inl (Wrapped ''failed to get columns'' e), executed @ [query])
                     | Inr columns \<Rightarrow> (scan_rows columns (Scans rows) [], executed @ [query]))))
      | _ \<Rightarrow> (Inl (ErrorString ''query parameter is required''), executed))"

text \<open>\<^verbatim>\<open>fmt.Sprintf("%v", val)\<close> on a value stored in a row. A byte slice prints as the
  list of its bytes in decimal, \<^verbatim>\<open>[65 108]\<close>.\<close>

fun join_blank :: "string list \<Rightarrow> string" where
  "join_blank [] = []"
| "join_blank [s] = s"
| "join_blank (s # t # rest) = s @ '' '' @ join_blank (t # rest)"

fun Sprint_v :: "sqlval \<Rightarrow> string" where
  "Sprint_v (VInt i) = Sprint_int i"
| "Sprint_v (VString s) = s"
| "Sprint_v (VBytes b) = ''['' @ join_blank (map (\<lambda>c. digits (of_char c)) b) @ '']''"
| "Sprint_v (VOther s) = s"

text \<open>
  The table layout shared by every variant of the bridge: the width of a column is
  the longest of its name and its rendered values; a header line in upper case, a
  line of dashes, then one line per row, every cell followed by two blanks.
\<close>

definition colWidth :: "row list \<Rightarrow> string \<Rightarrow> nat" where
  "colWidth v col =
     fold (\<lambda>r w. case map_of r col of
                    Some val \<Rightarrow> (if length (Sprint_v val) > w then length (Sprint_v val) else w)
                  | None \<Rightarrow> w)
          v (length col)"

definition header_line :: "row list \<Rightarrow> string list \<Rightarrow> string" where
  "header_line v columns =
     concat (map (\<lambda>col. pad_right (colWidth v col) (ToUpper col) @ ''  '') columns) @ [CHR 0x0A]"

definition separator_line :: "row list \<Rightarrow> string list \<Rightarrow> string" where
  "separator_line v columns =
     concat (map (\<lambda>col. replicate (colWidth v col) (CHR ''-'') @ ''  '') columns) @ [CHR 0x0A]"

definition data_line :: "row list \<Rightarrow> string list \<Rightarrow> row \<Rightarrow> string" where
  "data_line v columns r =
     concat (map (\<lambda>col. case map_of r col of
                           Some val \<Rightarrow> pad_right (colWidth v col) (Sprint_v val) @ ''  ''
                         | None \<Rightarrow> pad_right (colWidth v col) [] @ ''  '') columns) @ [CHR 0x0A]"

definition format_table :: "string list \<Rightarrow> row list \<Rightarrow> string" where
  "format_table columns v =
     header_line v columns @ separator_line v columns @ concat (map (data_line v columns) v)"

text \<open>\<^verbatim>\<open>formatDatabaseResult\<close> (multi-server bridge) on the \<^verbatim>\<open>[]map[string]interface{}\<close>
  that \<^verbatim>\<open>Execute\<close> always returns: the columns are the keys of all rows, sorted.\<close>

definition formatDatabaseResult :: "row list \<Rightarrow> string" where
  "formatDatabaseResult v =
     (if length v = 0 then []
      else format_table (sort (remdups (concat (map (map fst) v)))) v)"

section \<open>The orchestrator's state and its collaborators\<close>

text \<open>\<^verbatim>\<open>mcp.Tool\<close> and \<^verbatim>\<open>config.MCPServerConfig\<close>.\<close>

record Tool =
  tool_Name :: string
  Description :: string
  InputSchema :: jval

record MCPServerConfig =
  server_Name :: string
  Command :: string
  server_Arguments :: "string list"

text \<open>An item of \<^verbatim>\<open>mcp.CallToolResult.Content\<close>: a decoded JSON object, or the struct
  \<^verbatim>\<open>mcp.TextContent\<close> that \<^verbatim>\<open>MCPClient.CallTool\<close> appends for every text item.\<close>

datatype content =
    MapContent jobj
  | TextContent string

text \<open>
  The multi-server \<^verbatim>\<open>Bridge\<close>. A provider session (\<^verbatim>\<open>*MCPClient\<close>) is named by a
  number. \<open>servers\<close> is \<^verbatim>\<open>config.MCPServers\<close>.
\<close>

record Bridge =
  systemPrompt :: string
  tools :: "Tool list"
  toolMap :: "string \<rightharpoonup> string"
  serverMap :: "string \<rightharpoonup> nat"
  dbTool :: DatabaseTool
  servers :: "MCPServerConfig list"

text \<open>
  Everything outside the process, as functions of what is sent: \<open>chat n messages\<close> is
  what \<^verbatim>\<open>llm.Client.sendRequest\<close> returns for the \<open>n\<close>-th request to the model
  endpoint, \<open>CallTool n client name arguments\<close> the text items (or the error)
  \<^verbatim>\<open>MCPClient.CallTool\<close> returns for the \<open>n\<close>-th provider call, \<open>MarshalIndent\<close> is
  \<^verbatim>\<open>json.MarshalIndent\<close> on a content item and \<open>Sprint_float\<close> is \<^verbatim>\<open>%v\<close> on a number.
\<close>

record endpoints =
  chat :: "nat \<Rightarrow> Message list \<Rightarrow> error + LLMResponse"
  CallTool :: "nat \<Rightarrow> nat \<Rightarrow> string \<Rightarrow> jobj \<Rightarrow> error + string list"
  MarshalIndent :: "content \<Rightarrow> error + string"
  Sprint_float :: "int \<Rightarrow> string"

text \<open>
  What a run leaves behind: the message lists sent to the model, the durations
  slept (nanoseconds, as \<^verbatim>\<open>time.Duration\<close>), the statements run by the SQL engine
  and the calls made on provider sessions (session, native tool name, arguments).
\<close>

record world =
  llm_requests :: "Message list list"
  sleeps :: "int list"
  queries :: "string list"
  provider_calls :: "(nat \<times> string \<times> jobj) list"

definition Second :: int where
  "Second = 1000000000"

section \<open>The model adapter\<close>

definition llm_sendRequest :: "endpoints \<Rightarrow> Message list \<Rightarrow> world \<Rightarrow> (error + LLMResponse) \<times> world" where
  "llm_sendRequest env messages w =
     (chat env (length (llm_requests w)) messages,
      w\<lparr>llm_requests := llm_requests w @ [messages]\<rparr>)"

text \<open>The message list \<^verbatim>\<open>GenerateResponse\<close> builds: the system prompt, then the user's text.\<close>

definition generate_messages :: "Bridge \<Rightarrow> string \<Rightarrow> Message list" where
  "generate_messages b msg =
     [\<lparr>Role = ''system'', MContent = systemPrompt b\<rparr>, \<lparr>Role = ''user'', MContent = msg\<rparr>]"

definition GenerateResponse :: "Bridge \<Rightarrow> endpoints \<Rightarrow> string \<Rightarrow> world \<Rightarrow> (error + LLMResponse) \<times> world" where
  "GenerateResponse b env msg w =
     (case llm_sendRequest env (generate_messages b msg) w of
        (Inl e, w') \<Rightarrow> (Inl (Wrapped ''failed to send request'' e), w')
      | (Inr resp, w') \<Rightarrow> (Inr resp, w'))"

text \<open>The message list \<^verbatim>\<open>ContinueWithToolResults\<close> builds: the system prompt when there
  is one, then one assistant message per tool result.\<close>

definition continue_messages :: "Bridge \<Rightarrow> ToolResult list \<Rightarrow> Message list" where
  "continue_messages b toolResults =
     (if systemPrompt b \<noteq> [] then [\<lparr>Role = ''system'', MContent = systemPrompt b\<rparr>] else []) @
     map (\<lambda>result. \<lparr>Role = ''assistant'',
                       MContent = ''Tool result for call '' @ tool_call_id result @ '': '' @ output_text result\<rparr>)
         toolResults"

definition ContinueWithToolResults ::
    "Bridge \<Rightarrow> endpoints \<Rightarrow> ToolResult list \<Rightarrow> world \<Rightarrow> (error + LLMResponse) \<times> world" where
  "ContinueWithToolResults b env toolResults w = llm_sendRequest env (continue_messages b toolResults) w"

text \<open>\<^verbatim>\<open>generateLLMResponse\<close> and \<^verbatim>\<open>generateLLMResponseWithTools\<close> only add logging.\<close>

definition generateLLMResponse :: "Bridge \<Rightarrow> endpoints \<Rightarrow> string \<Rightarrow> world \<Rightarrow> (error + LLMResponse) \<times> world" where
  "generateLLMResponse b env msg w = GenerateResponse b env msg w"

definition generateLLMResponseWithTools ::
    "Bridge \<Rightarrow> endpoints \<Rightarrow> ToolResult list \<Rightarrow> world \<Rightarrow> (error + LLMResponse) \<times> world" where
  "generateLLMResponseWithTools b env toolResults w = ContinueWithToolResults b env toolResults w"

section \<open>Dispatch of tool calls\<close>

text \<open>\<^verbatim>\<open>handleDatabaseTool\<close> (multi-server bridge).\<close>

definition handleDatabaseTool :: "Bridge \<Rightarrow> ToolCall \<Rightarrow> world \<Rightarrow> (error + ToolResult) \<times> world" where
  "handleDatabaseTool b call w =
     (case map_of (Arguments call) ''query'' of
        Some (JStr query) \<Rightarrow>
          (case Execute (dbTool b) [(''query'', JStr query)] (queries w) of
             (Inl e, q) \<Rightarrow> (Inl (Wrapped ''database query failed'' e), w\<lparr>queries := q\<rparr>)
           | (Inr result, q) \<Rightarrow>
               (Inr \<lparr>tool_call_id = ID call, output_text = formatDatabaseResult result\<rparr>,
                w\<lparr>queries := q\<rparr>))
      | _ \<Rightarrow> (Inl (ErrorString ''invalid query argument''), w))"

text \<open>\<^verbatim>\<open>formatToolResult\<close>: a map with a string under \<^verbatim>\<open>"text"\<close> contributes that text,
  anything else its JSON rendering, nothing when marshalling fails.\<close>

definition formatToolResult :: "endpoints \<Rightarrow> content list \<Rightarrow> string" where
  "formatToolResult env result_Content =
     (if length result_Content = 0 then []
      else TrimSpace (concat (map (\<lambda>c.
             case c of
               MapContent v \<Rightarrow>
                 (case map_of v ''text'' of
                    Some (JStr text) \<Rightarrow> text @ [CHR 0x0A]
                  | _ \<Rightarrow> (case MarshalIndent env c of Inr data \<Rightarrow> data @ [CHR 0x0A] | Inl e \<Rightarrow> []))
             | TextContent t \<Rightarrow>
                 (case MarshalIndent env c of Inr data \<Rightarrow> data @ [CHR 0x0A] | Inl e \<Rightarrow> []))
           result_Content)))"

text \<open>The argument conversion of \<^verbatim>\<open>handleToolCalls\<close>: a number under the key
  \<^verbatim>\<open>limit\<close> or \<^verbatim>\<open>interval\<close> becomes its \<^verbatim>\<open>%v\<close> text.\<close>

definition convertArgs :: "endpoints \<Rightarrow> jobj \<Rightarrow> jobj" where
  "convertArgs env arguments =
     map (\<lambda>(k, v). case v of
                      JNum val \<Rightarrow> (if k = ''limit'' \<or> k = ''interval''
                                   then (k, JStr (Sprint_float env val)) else (k, v))
                    | _ \<Rightarrow> (k, v)) arguments"

text \<open>\<^verbatim>\<open>handleToolCalls\<close> of the multi-server bridge; the third argument is the rest
  of \<^verbatim>\<open>toolCalls\<close>, the fourth the \<open>results\<close> slice so far.\<close>

fun handleToolCalls_from ::
    "Bridge \<Rightarrow> endpoints \<Rightarrow> ToolCall list \<Rightarrow> ToolResult list \<Rightarrow> world \<Rightarrow> (error + ToolResult list) \<times> world" where
  "handleToolCalls_from b env [] results w = (Inr results, w)"
| "handleToolCalls_from b env (call # rest) results w =
     (case toolMap b (Name call) of
        None \<Rightarrow> (Inl (ErrorString (''unknown tool: '' @ Name call)), w)
      | Some mcpName \<Rightarrow>
          if mcpName = ''query_database'' then
            (case handleDatabaseTool b call w of
               (Inl e, w') \<Rightarrow> (Inl e, w')
             | (Inr result, w') \<Rightarrow> handleToolCalls_from b env rest (results @ [result]) w')
          else
            (let parts = SplitN_slash_2 mcpName in
             if length parts \<noteq> 2 then (Inl (ErrorString (''invalid tool mapping: '' @ mcpName)), w)
             else
               (let serverName = parts ! 0; toolName = parts ! 1 in
                case serverMap b serverName of
                  None \<Rightarrow> (Inl (ErrorString (''unknown MCP server: '' @ serverName)), w)
                | Some client \<Rightarrow>
                    (let convertedArgs = convertArgs env (Arguments call);
                         w' = w\<lparr>provider_calls := provider_calls w @ [(client, toolName, convertedArgs)]\<rparr>
                     in case CallTool env (length (provider_calls w)) client toolName convertedArgs of
                          Inl e \<Rightarrow> (Inl (Wrapped ''tool execution failed'' e), w')
                        | Inr texts \<Rightarrow>
                            handleToolCalls_from b env rest
                              (results @ [\<lparr>tool_call_id = ID call,
                                            output_text = formatToolResult env (map TextContent texts)\<rparr>]) w'))))"

definition handleToolCalls ::
    "Bridge \<Rightarrow> endpoints \<Rightarrow> ToolCall list \<Rightarrow> world \<Rightarrow> (error + ToolResult list) \<times> world" where
  "handleToolCalls b env toolCalls w = handleToolCalls_from b env toolCalls [] w"

text \<open>\<^verbatim>\<open>handleToolCalls\<close> of the single-server bridge (\<^verbatim>\<open>bridge/bridge.go\<close> and the oldest
  variant): the only tool is the database, printed with a fixed column list.\<close>

definition fixed_columns :: "string list" where
  "fixed_columns = [''id'', ''user_id'', ''product'', ''price'', ''created_at'']"

fun handleToolCalls_single_from ::
    "Bridge \<Rightarrow> endpoints \<Rightarrow> ToolCall list \<Rightarrow> ToolResult list \<Rightarrow> world \<Rightarrow> (error + ToolResult list) \<times> world" where
  "handleToolCalls_single_from b env [] results w = (Inr results, w)"
| "handleToolCalls_single_from b env (call # rest) results w =
     (case toolMap b (Name call) of
        None \<Rightarrow> (Inl (ErrorString (''unknown tool: '' @ Name call)), w)
      | Some mcpName \<Rightarrow>
          if mcpName = ''query_database'' then
            (case map_of (Arguments call) ''query'' of
               Some (JStr query) \<Rightarrow>
                 (case Execute (dbTool b) [(''query'', JStr query)] (queries w) of
                    (Inl e, q) \<Rightarrow> (Inl (Wrapped ''tool execution failed'' e), w\<lparr>queries := q\<rparr>)
                  | (Inr v, q) \<Rightarrow>
                      handleToolCalls_single_from b env rest
                        (results @ [\<lparr>tool_call_id = ID call,
                                      output_text = (if length v > 0 then format_table fixed_columns v else [])\<rparr>])
                        (w\<lparr>queries := q\<rparr>))
             | _ \<Rightarrow> (Inl (ErrorString ''invalid query argument''), w))
          else (Inl (ErrorString (''unknown tool: '' @ mcpName)), w))"

definition handleToolCalls_single ::
    "Bridge \<Rightarrow> endpoints \<Rightarrow> ToolCall list \<Rightarrow> world \<Rightarrow> (error + ToolResult list) \<times> world" where
  "handleToolCalls_single b env toolCalls w = handleToolCalls_single_from b env toolCalls [] w"

section \<open>Tool-name sanitisation\<close>

text \<open>
  \<^verbatim>\<open>sanitizeToolName\<close> occurs verbatim in every variant of
  \<^verbatim>\<open>bridge/bridge.go\<close> and in the \<^verbatim>\<open>llm\<close> package. The Go loop ranges over the runes
  of the name and appends \<^verbatim>\<open>"_"\<close> for \<^verbatim>\<open>'-'\<close> and \<^verbatim>\<open>' '\<close>, the rune itself otherwise.
  A name is modelled as a \<^typ>\<open>string\<close> holding one element per iteration of that loop:
  both replaced runes are single-byte ASCII and never occur inside a multi-byte
  UTF-8 sequence, so on well-formed UTF-8 the rune loop and the element-wise
  loop below coincide.
\<close>

fun sanitizeToolName_go :: "string \<Rightarrow> string \<Rightarrow> string" where
  "sanitizeToolName_go sanitized [] = sanitized"
| "sanitizeToolName_go sanitized (r # name) =
     (if r = CHR ''-'' \<or> r = CHR '' '' then sanitizeToolName_go (sanitized @ ''_'') name
      else sanitizeToolName_go (sanitized @ [r]) name)"

definition sanitizeToolName :: "string \<Rightarrow> string" where
  "sanitizeToolName name = sanitizeToolName_go [] name"

section \<open>Processing one message\<close>

text \<open>
  The retry loop that opens every variant of \<^verbatim>\<open>ProcessMessage\<close>. The loop is left
  either by \<^verbatim>\<open>return "", err\<close> (\<open>EarlyReturn\<close>) or with the variables \<open>response\<close> and
  \<open>err\<close> as they stand after \<^verbatim>\<open>break\<close> or after the third attempt (\<open>LoopEnd\<close>).
\<close>

datatype retry_exit =
    EarlyReturn error
  | LoopEnd "LLMResponse option" "error option"

function retry_loop ::
    "Bridge \<Rightarrow> endpoints \<Rightarrow> string \<Rightarrow> nat \<Rightarrow> int \<Rightarrow> LLMResponse option \<Rightarrow> error option \<Rightarrow> world
       \<Rightarrow> retry_exit \<times> world" where
  "retry_loop b env msg attempts backoff response err w =
     (if attempts < 3 then
        (case generateLLMResponse b env msg w of
           (Inr resp, w') \<Rightarrow> (LoopEnd (Some resp) None, w')
         | (Inl e, w') \<Rightarrow>
             if \<not> isRetryableError (Some e) then (EarlyReturn e, w')
             else retry_loop b env msg (attempts + 1) (backoff * 2) None (Some e)
                    (w'\<lparr>sleeps := sleeps w' @ [backoff]\<rparr>))
      else (LoopEnd response err, w))"
  by pat_completeness auto
termination
  by (relation "measure (\<lambda>(b, env, msg, attempts, rest). 3 - attempts)") auto

declare retry_loop.simps [simp del]

text \<open>The clean-up of the model's content at the end of \<^verbatim>\<open>ProcessMessage\<close>.\<close>

definition clean_content :: "string \<Rightarrow> string" where
  "clean_content c = TrimSpace (ReplaceAll (ReplaceAll c ''<|im_start|>'' []) ''<|im_end|>'' [])"

text \<open>
  \<^verbatim>\<open>ProcessMessage\<close> of \<^verbatim>\<open>bridge/bridge.go\<close> and of the multi-server bridge. The two
  bodies differ only in the \<^verbatim>\<open>handleToolCalls\<close> they call, which is the first argument.
\<close>

definition ProcessMessage_with ::
    "(Bridge \<Rightarrow> endpoints \<Rightarrow> ToolCall list \<Rightarrow> world \<Rightarrow> (error + ToolResult list) \<times> world)
       \<Rightarrow> Bridge \<Rightarrow> endpoints \<Rightarrow> string \<Rightarrow> world \<Rightarrow> (error + string) \<times> world" where
  "ProcessMessage_with handle b env msg w =
     (case retry_loop b env msg 0 Second None None w of
        (EarlyReturn e, w1) \<Rightarrow> (Inl e, w1)
      | (LoopEnd response err, w1) \<Rightarrow>
          (case err of
             Some e \<Rightarrow> (Inl (BridgeError ''process_message'' ''failed after retry attempts'' e), w1)
           | None \<Rightarrow>
               (case response of
                  None \<Rightarrow> (Inl (Panic ''nil pointer dereference''), w1)
                | Some resp \<Rightarrow>
                    if length (ToolCalls resp) > 0 then
                      (case handle b env (ToolCalls resp) w1 of
                         (Inl e, w2) \<Rightarrow>
                           (Inl (BridgeError ''handle_tools'' ''tool execution failed'' e), w2)
                       | (Inr toolResults, w2) \<Rightarrow>
                           if length toolResults > 0 then (Inr (output_text (hd toolResults)), w2)
                           else (Inr (clean_content (Content resp)), w2))
                    else (Inr (clean_content (Content resp)), w1))))"

definition ProcessMessage :: "Bridge \<Rightarrow> endpoints \<Rightarrow> string \<Rightarrow> world \<Rightarrow> (error + string) \<times> world" where
  "ProcessMessage = ProcessMessage_with handleToolCalls"

definition ProcessMessage_single :: "Bridge \<Rightarrow> endpoints \<Rightarrow> string \<Rightarrow> world \<Rightarrow> (error + string) \<times> world" where
  "ProcessMessage_single = ProcessMessage_with handleToolCalls_single"

text \<open>
  The oldest variant of \<^verbatim>\<open>ProcessMessage\<close> continues the conversation:
  \<^verbatim>\<open>for len(response.ToolCalls) > 0 { ... }\<close>. Nothing bounds the number of rounds, so
  the loop is a partial function: \<open>None\<close> is a run that never leaves it. On leaving, it
  yields \<open>response\<close> and \<open>lastToolResult\<close>.
\<close>

partial_function (option) tool_loop ::
    "Bridge \<Rightarrow> endpoints \<Rightarrow> LLMResponse \<Rightarrow> string \<Rightarrow> world
       \<Rightarrow> ((error + LLMResponse \<times> string) \<times> world) option" where
  "tool_loop b env response lastToolResult w =
     (if length (ToolCalls response) > 0 then
        (case handleToolCalls_single b env (ToolCalls response) w of
           (Inl e, w1) \<Rightarrow> Some (Inl (BridgeError ''handle_tools'' ''tool execution failed'' e), w1)
         | (Inr toolResults, w1) \<Rightarrow>
             (let lastToolResult' =
                    (if length toolResults > 0 then output_text (hd toolResults) else lastToolResult)
              in case generateLLMResponseWithTools b env toolResults w1 of
                   (Inl e, w2) \<Rightarrow>
                     Some (Inl (BridgeError ''continue_with_tools'' ''LLM continuation failed'' e), w2)
                 | (Inr response', w2) \<Rightarrow>
                     if Content response' = [] \<or> Content response' = ''<|im_start|>'' \<or>
                        Content response' = ''<|im_end|>''
                     then Some (Inr (response'\<lparr>Content := lastToolResult'\<rparr>, lastToolResult'), w2)
                     else tool_loop b env response' lastToolResult' w2))
      else Some (Inr (response, lastToolResult), w))"

declare tool_loop.simps [code]

definition ProcessMessage_loop ::
    "Bridge \<Rightarrow> endpoints \<Rightarrow> string \<Rightarrow> world \<Rightarrow> ((error + string) \<times> world) option" where
  "ProcessMessage_loop b env msg w =
     (case retry_loop b env msg 0 Second None None w of
        (EarlyReturn e, w1) \<Rightarrow> Some (Inl e, w1)
      | (LoopEnd response err, w1) \<Rightarrow>
          (case err of
             Some e \<Rightarrow> Some (Inl (BridgeError ''process_message'' ''failed after retry attempts'' e), w1)
           | None \<Rightarrow>
               (case response of
                  None \<Rightarrow> Some (Inl (Panic ''nil pointer dereference''), w1)
                | Some resp \<Rightarrow>
                    (case tool_loop b env resp [] w1 of
                       None \<Rightarrow> None
                     | Some (Inl e, w2) \<Rightarrow> Some (Inl e, w2)
                     | Some (Inr (response', lastToolResult), w2) \<Rightarrow>
                         (let content = clean_content (Content response') in
                          if content = [] \<and> lastToolResult \<noteq> [] then Some (Inr lastToolResult, w2)
                          else Some (Inr content, w2))))))"

section \<open>Initialisation of the multi-server bridge\<close>

text \<open>
  The provider processes, as seen by \<^verbatim>\<open>Bridge.Initialize\<close>: \<open>NewMCPClient\<close> spawns a
  session for a configuration (or fails), \<open>client_Initialize\<close> is the handshake and
  \<open>ListTools\<close> the tool listing on a session.
\<close>

record providers =
  NewMCPClient :: "MCPServerConfig \<Rightarrow> error + nat"
  client_Initialize :: "nat \<Rightarrow> error option"
  ListTools :: "nat \<Rightarrow> error + Tool list"

text \<open>The registration loop over \<^verbatim>\<open>toolsResult.Tools\<close>.\<close>

fun register_tools :: "string \<Rightarrow> Tool list \<Rightarrow> Bridge \<Rightarrow> Bridge" where
  "register_tools serverName [] b = b"
| "register_tools serverName (tool # rest) b =
     register_tools serverName rest
       (b\<lparr>toolMap := (toolMap b)(sanitizeToolName (tool_Name tool) \<mapsto> serverName @ ''/'' @ tool_Name tool),
          tools := tools b @ [tool]\<rparr>)"

text \<open>The loop over \<^verbatim>\<open>b.config.MCPServers\<close>. The third component lists the sessions
  closed on the way out. (\<^verbatim>\<open>SetTools\<close>, called after the loop, always returns \<^verbatim>\<open>nil\<close>.)\<close>

fun init_servers :: "providers \<Rightarrow> MCPServerConfig list \<Rightarrow> Bridge \<Rightarrow> error option \<times> Bridge \<times> nat list" where
  "init_servers p [] b = (None, b, [])"
| "init_servers p (serverCfg # rest) b =
     (case NewMCPClient p serverCfg of
        Inl e \<Rightarrow> (Some (Wrapped (''failed to create MCP client for '' @ server_Name serverCfg) e), b, [])
      | Inr client \<Rightarrow>
          (case client_Initialize p client of
             Some e \<Rightarrow>
               (Some (Wrapped (''failed to initialize MCP client for '' @ server_Name serverCfg) e), b, [client])
           | None \<Rightarrow>
               (case ListTools p client of
                  Inl e \<Rightarrow>
                    (Some (Wrapped (''failed to list tools for '' @ server_Name serverCfg) e), b, [client])
                | Inr toolsResult \<Rightarrow>
                    (let b' = register_tools (server_Name serverCfg) toolsResult b in
                     init_servers p rest
                       (b'\<lparr>serverMap := (serverMap b')(server_Name serverCfg \<mapsto> client)\<rparr>)))))"

definition Initialize :: "providers \<Rightarrow> Bridge \<Rightarrow> error option \<times> Bridge \<times> nat list" where
  "Initialize p b =
     init_servers p (servers b) (b\<lparr>toolMap := (toolMap b)(''query_database'' \<mapsto> ''query_database'')\<rparr>)"

text \<open>The bridge as \<^verbatim>\<open>New\<close> builds it: one tool, empty maps.\<close>

definition queryTool :: Tool where
  "queryTool = \<lparr>tool_Name = ''query_database'',
                 Description = ''Execute a SQL query against the SQLite database'',
                 InputSchema = JObj [(''type'', JStr ''object''),
                   (''properties'', JObj [(''query'', JObj [(''type'', JStr ''string''),
                       (''description'', JStr ''SQL query to execute'')])]),
                   (''required'', JArr [JStr ''query''])]\<rparr>"

definition New :: "string \<Rightarrow> DatabaseTool \<Rightarrow> MCPServerConfig list \<Rightarrow> Bridge" where
  "New prompt db cfg =
     \<lparr>systemPrompt = prompt, tools = [queryTool], toolMap = Map.empty, serverMap = Map.empty,
      dbTool = db, servers = cfg\<rparr>"

section \<open>The provider protocol client\<close>

subsection \<open>The background reader\<close>

text \<open>
  \<^verbatim>\<open>MCPClient.readResponses\<close>. A line of the provider's output is modelled by what
  \<^verbatim>\<open>json.Unmarshal(line, &msg)\<close> makes of it: \<open>None\<close> when it fails, the decoded object
  otherwise. Every consumer of \<^verbatim>\<open>respChan\<close> unmarshals the bytes it receives in the same
  way, so the channel carries the decoded object too. (\<^verbatim>\<open>ReadBytes\<close> returns the delimiter
  with the line, so the test \<^verbatim>\<open>len(line) == 0\<close> never succeeds.) The channel is the
  sequence of lines sent on it, oldest first; a send on the full one-slot buffer
  only waits. The first argument is \<^verbatim>\<open>fmt.Sprintf("%v", params)\<close>.
\<close>

datatype log_entry =
    Notification_received jobj
  | Response_received jobj

record reader =
  logged :: "log_entry list"
  respChan :: "jobj list"
  respChan_closed :: bool

definition isDevelopmentModeWarning :: "string \<Rightarrow> bool" where
  "isDevelopmentModeWarning msg = Contains msg ''Running in development mode''"

fun read_line :: "(jobj \<Rightarrow> string) \<Rightarrow> jobj option \<Rightarrow> reader \<Rightarrow> reader" where
  "read_line sprint None r = r"
| "read_line sprint (Some msg) r =
     (if map_of msg ''method'' = Some (JStr ''notify'') then
        (case map_of msg ''params'' of
           Some (JObj params) \<Rightarrow>
             if \<not> isDevelopmentModeWarning (sprint params)
             then r\<lparr>logged := logged r @ [Notification_received params]\<rparr>
             else r
         | _ \<Rightarrow> r)
      else if map_of msg ''result'' \<noteq> None
        then r\<lparr>logged := logged r @ [Response_received msg], respChan := respChan r @ [msg]\<rparr>
      else r)"

text \<open>The loop, run on the lines the provider writes before its output ends; the
  read error at the end closes the channel.\<close>

fun readResponses :: "(jobj \<Rightarrow> string) \<Rightarrow> jobj option list \<Rightarrow> reader \<Rightarrow> reader" where
  "readResponses sprint [] r = r\<lparr>respChan_closed := True\<rparr>"
| "readResponses sprint (line # rest) r = readResponses sprint rest (read_line sprint line r)"

definition new_reader :: reader where
  "new_reader = \<lparr>logged = [], respChan = [], respChan_closed = False\<rparr>"

text \<open>A rendering of the parameters for the sample streams: \<^verbatim>\<open>map[k:v ...]\<close>, exact
  for objects with one string-valued key.\<close>

definition Sprint_params :: "jobj \<Rightarrow> string" where
  "Sprint_params params =
     ''map['' @ concat (map (\<lambda>(k, v). k @ '':'' @ (case v of JStr t \<Rightarrow> t | _ \<Rightarrow> [])) params) @ '']''"

subsection \<open>Requests and their responses on one session\<close>

text \<open>
  \<^verbatim>\<open>Initialize\<close>, \<^verbatim>\<open>ListTools\<close> and \<^verbatim>\<open>CallTool\<close> share one shape: build the request
  with \<^verbatim>\<open>c.nextID\<close> and increment it; \<^verbatim>\<open>sendRequest\<close> (lock \<^verbatim>\<open>c.mu\<close>, write the line
  to the provider's input, unlock on return); then \<^verbatim>\<open>select\<close> between a receive from
  \<^verbatim>\<open>c.respChan\<close> and a ten-second timer. Callers are goroutines, named by numbers;
  the state of a caller is the point it has reached in that shape. A request and a
  response are named by the request id they carry. Reading and incrementing
  \<^verbatim>\<open>c.nextID\<close> is taken as one step, the case most favourable to the client.
\<close>

datatype call_state =
    Idle
  | Built int
  | Locked int
  | Written int
  | Waiting int
  | Received int int
  | TimedOut int
  | SendFailed int

record session =
  nextID :: int
  mu :: "nat option"
  provider_stdin :: "int list"
  provider_stdout :: "int list"
  chan :: "int list"
  callers :: "nat \<Rightarrow> call_state"

text \<open>
  The steps of the interleaving. \<open>Build\<close>, \<open>Lock\<close>, \<open>Write\<close>, \<open>WriteFails\<close>, \<open>Unlock\<close>,
  \<open>Receive\<close> and \<open>Timeout\<close> are steps of a caller; \<open>Answer i\<close> is the provider writing
  its response to request \<open>i\<close>; \<open>Forward\<close> is the reader goroutine passing the next
  response line to the channel, possible only while the one-slot buffer is free.
\<close>

datatype event =
    Build nat
  | Lock nat
  | Write nat
  | WriteFails nat
  | Unlock nat
  | Answer int
  | Forward
  | Receive nat
  | Timeout nat

definition returned :: "call_state \<Rightarrow> bool" where
  "returned st = (case st of Idle \<Rightarrow> True | Received i r \<Rightarrow> True | TimedOut i \<Rightarrow> True
                  | SendFailed i \<Rightarrow> True | _ \<Rightarrow> False)"

fun step :: "event \<Rightarrow> session \<Rightarrow> session option" where
  "step (Build c) s =
     (if returned (callers s c)
      then Some (s\<lparr>nextID := nextID s + 1, callers := (callers s)(c := Built (nextID s))\<rparr>)
      else None)"
| "step (Lock c) s =
     (case callers s c of
        Built i \<Rightarrow> (if mu s = None then Some (s\<lparr>mu := Some c, callers := (callers s)(c := Locked i)\<rparr>)
                    else None)
      | _ \<Rightarrow> None)"
| "step (Write c) s =
     (case callers s c of
        Locked i \<Rightarrow> Some (s\<lparr>provider_stdin := provider_stdin s @ [i],
                            callers := (callers s)(c := Written i)\<rparr>)
      | _ \<Rightarrow> None)"
| "step (WriteFails c) s =
     (case callers s c of
        Locked i \<Rightarrow> Some (s\<lparr>mu := None, callers := (callers s)(c := SendFailed i)\<rparr>)
      | _ \<Rightarrow> None)"
| "step (Unlock c) s =
     (case callers s c of
        Written i \<Rightarrow> Some (s\<lparr>mu := None, callers := (callers s)(c := Waiting i)\<rparr>)
      | _ \<Rightarrow> None)"
| "step (Answer i) s =
     (if i \<in> set (provider_stdin s)
      then Some (s\<lparr>provider_stdout := provider_stdout s @ [i]\<rparr>)
      else None)"
| "step Forward s =
     (case provider_stdout s of
        [] \<Rightarrow> None
      | line # rest \<Rightarrow>
          (if length (chan s) < 1
           then Some (s\<lparr>provider_stdout := rest, chan := chan s @ [line]\<rparr>)
           else None))"
| "step (Receive c) s =
     (case callers s c of
        Waiting i \<Rightarrow>
          (case chan s of
             [] \<Rightarrow> None
           | resp # rest \<Rightarrow> Some (s\<lparr>chan := rest, callers := (callers s)(c := Received i resp)\<rparr>))
      | _ \<Rightarrow> None)"
| "step (Timeout c) s =
     (case callers s c of
        Waiting i \<Rightarrow> Some (s\<lparr>callers := (callers s)(c := TimedOut i)\<rparr>)
      | _ \<Rightarrow> None)"

fun run :: "event list \<Rightarrow> session \<Rightarrow> session option" where
  "run [] s = Some s"
| "run (e # es) s = (case step e s of None \<Rightarrow> None | Some s' \<Rightarrow> run es s')"

text \<open>The session as \<^verbatim>\<open>NewMCPClient\<close> creates it.\<close>

definition new_session :: session where
  "new_session = \<lparr>nextID = 1, mu = None, provider_stdin = [], provider_stdout = [], chan = [],
                   callers = (\<lambda>c. Idle)\<rparr>"

subsection \<open>Teardown\<close>

text \<open>
  \<^verbatim>\<open>MCPClient.Close\<close>. The record holds what each of the four calls would return on
  this session; the result lists the calls made, in order, and the error returned.
\<close>

record teardown =
  stdin_Close :: "error option"
  stdout_Close :: "error option"
  Process_Kill :: "error option"
  cmd_Wait :: "error option"

datatype teardown_call = Stdin_Close | Stdout_Close | Kill | Wait

definition MCPClient_Close :: "teardown \<Rightarrow> teardown_call list \<times> error option" where
  "MCPClient_Close c =
     (case stdin_Close c of
        Some e \<Rightarrow> ([Stdin_Close], Some (Wrapped ''failed to close stdin'' e))
      | None \<Rightarrow>
     (case stdout_Close c of
        Some e \<Rightarrow> ([Stdin_Close, Stdout_Close], Some (Wrapped ''failed to close stdout'' e))
      | None \<Rightarrow>
     (case Process_Kill c of
        Some e \<Rightarrow> ([Stdin_Close, Stdout_Close, Kill], Some (Wrapped ''failed to kill process'' e))
      | None \<Rightarrow>
     (case cmd_Wait c of
        Some e \<Rightarrow> ([Stdin_Close, Stdout_Close, Kill, Wait], Some (Wrapped ''failed to wait for process'' e))
      | None \<Rightarrow> ([Stdin_Close, Stdout_Close, Kill, Wait], None)))))"

text \<open>
  \<^verbatim>\<open>Bridge.Close\<close> of the multi-server bridge, for comparison: the database tool and
  every session are closed whatever the earlier outcomes, and the errors are
  gathered in \<open>errs\<close>. The arguments are the outcome of \<^verbatim>\<open>dbTool.Close()\<close> and, per
  server name, the outcome of closing its session.
\<close>

definition Bridge_Close_errs :: "error option \<Rightarrow> (string \<times> error option) list \<Rightarrow> error list" where
  "Bridge_Close_errs db_close client_closes =
     (case db_close of Some e \<Rightarrow> [Wrapped ''database tool'' e] | None \<Rightarrow> []) @
     concat (map (\<lambda>(name, r). case r of Some e \<Rightarrow> [Wrapped (''MCP server '' @ name) e] | None \<Rightarrow> [])
                 client_closes)"

section \<open>Sample configurations\<close>

text \<open>A database with the tables of \<^verbatim>\<open>example/create-example-db.go\<close>, \<^verbatim>\<open>users\<close> and
  \<^verbatim>\<open>orders\<close>, holding two users, one of them without e-mail address. The engine
  answers two statements; any other fails.\<close>

definition example_db :: DatabaseTool where
  "example_db =
     \<lparr>schemas = [''users'', ''orders''],
      db_Query = (\<lambda>query.
        if query = ''SELECT 1''
          then Inr \<lparr>Columns = Inr [''1''], Scans = [Inr [Some (VInt 1)]]\<rparr>
        else if query = ''SELECT name, email FROM users''
          then Inr \<lparr>Columns = Inr [''name'', ''email''],
                     Scans = [Inr [Some (VBytes ''Alice Smith''), Some (VString ''alice@example.com'')],
                              Inr [Some (VString ''Dave Black''), None]]\<rparr>
        else Inl (ErrorString ''SQL logic error''))\<rparr>"

text \<open>A bridge on that database with one provider session, number 7, registered as
  \<^verbatim>\<open>priceserver\<close> with the tool \<^verbatim>\<open>fetch price\<close>.\<close>

definition price_tool :: Tool where
  "price_tool = \<lparr>tool_Name = ''fetch price'', Description = ''Fetch a price'', InputSchema = JObj []\<rparr>"

definition price_providers :: providers where
  "price_providers =
     \<lparr>NewMCPClient = (\<lambda>cfg. Inr 7), client_Initialize = (\<lambda>client. None),
      ListTools = (\<lambda>client. Inr [price_tool])\<rparr>"

definition price_bridge :: Bridge where
  "price_bridge =
     fst (snd (Initialize price_providers
       (New ''You are a helpful assistant.'' example_db
          [\<lparr>server_Name = ''priceserver'', Command = ''npx'', server_Arguments = [''price-mcp'']\<rparr>])))"

text \<open>Endpoints whose model answers as the function given; a provider call answers
  with the single text \<^verbatim>\<open>42.50\<close>.\<close>

definition endpoints_with :: "(nat \<Rightarrow> Message list \<Rightarrow> error + LLMResponse) \<Rightarrow> endpoints" where
  "endpoints_with model =
     \<lparr>chat = model, CallTool = (\<lambda>n client name arguments. Inr [''42.50'']),
      MarshalIndent = (\<lambda>c. case c of TextContent t \<Rightarrow> Inr t | MapContent v \<Rightarrow> Inr []),
      Sprint_float = Sprint_int\<rparr>"

text \<open>Three models: one that times out twice and then answers, one that is refused
  (a plain error, no \<^verbatim>\<open>net.Error\<close>), one that always times out.\<close>

definition flaky_model :: "nat \<Rightarrow> Message list \<Rightarrow> error + LLMResponse" where
  "flaky_model n messages =
     (if n < 2 then Inl (NetError True ''i/o timeout'')
      else Inr \<lparr>Content = ''hello'', ToolCalls = []\<rparr>)"



definition new_world :: world where
  "new_world = \<lparr>llm_requests = [], sleeps = [], queries = [], provider_calls = []\<rparr>"

text \<open>A request of the model for the users, a model that asks for it once and then
  answers in plain text, and a model that asks for it in every response.\<close>

definition users_call :: ToolCall where
  "users_call = \<lparr>ID = ''call_1'', Type = ''function'', Name = ''query_database'',
                   Arguments = [(''query'', JStr ''SELECT name, email FROM users'')]\<rparr>"

definition tool_model :: "nat \<Rightarrow> Message list \<Rightarrow> error + LLMResponse" where
  "tool_model n messages =
     (if n = 0 then Inr \<lparr>Content = [], ToolCalls = [users_call]\<rparr>
      else Inr \<lparr>Content = ''Two users.'', ToolCalls = []\<rparr>)"

definition insistent_model :: "nat \<Rightarrow> Message list \<Rightarrow> error + LLMResponse" where
  "insistent_model n messages = Inr \<lparr>Content = ''Let me check.'', ToolCalls = [users_call]\<rparr>"

text \<open>A model whose first call times out, which then asks for the users with empty
  content, asks again with the content \<^verbatim>\<open>Checking again.\<close>, and from then on asks with
  empty content.\<close>

definition retrying_tool_model :: "nat \<Rightarrow> Message list \<Rightarrow> error + LLMResponse" where
  "retrying_tool_model n messages =
     (if n = 0 then Inl (NetError True ''i/o timeout'')
      else if n = 1 then Inr \<lparr>Content = [], ToolCalls = [users_call]\<rparr>
      else if n = 2 then Inr \<lparr>Content = ''Checking again.'', ToolCalls = [users_call]\<rparr>
      else Inr \<lparr>Content = [], ToolCalls = [users_call]\<rparr>)"

text \<open>The request of the model for \<^verbatim>\<open>SELECT 1\<close>, and the sample bridge on a database
  whose only table is named \<^verbatim>\<open>t\<close>.\<close>

definition select_1_call :: ToolCall where
  "select_1_call = \<lparr>ID = ''call_1'', Type = ''function'', Name = ''query_database'',
                      Arguments = [(''query'', JStr ''SELECT 1'')]\<rparr>"

definition t_bridge :: Bridge where
  "t_bridge = price_bridge\<lparr>dbTool := example_db\<lparr>schemas := [''t'']\<rparr>\<rparr>"

text \<open>A provider's output: a start-up banner, two notifications, a response with a
  result and a response with an error.\<close>

definition sample_stream :: "jobj option list" where
  "sample_stream =
     [None,
      Some [(''jsonrpc'', JStr ''2.0''), (''method'', JStr ''notify''),
            (''params'', JObj [(''message'', JStr ''indexing'')])],
      Some [(''jsonrpc'', JStr ''2.0''), (''method'', JStr ''notifications/progress''), (''params'', JObj [])],
      Some [(''jsonrpc'', JStr ''2.0''), (''id'', JNum 1), (''result'', JObj [(''tools'', JArr [])])],
      Some [(''jsonrpc'', JStr ''2.0''), (''id'', JNum 2),
            (''error'', JObj [(''code'', JNum (- 32601)), (''message'', JStr ''Method not found'')])]]"

section \<open>Properties of sanitisation\<close>

lemma sanitizeToolName_go_map:
  "sanitizeToolName_go acc name =
     acc @ map (\<lambda>r. if r = CHR ''-'' \<or> r = CHR '' '' then CHR ''_'' else r) name"
  by (induction name arbitrary: acc) simp_all

lemma sanitizeToolName_map:
  "sanitizeToolName name =
     map (\<lambda>r. if r = CHR ''-'' \<or> r = CHR '' '' then CHR ''_'' else r) name"
  by (simp add: sanitizeToolName_def sanitizeToolName_go_map)

text \<open>
  Claim C9. Tool-name sanitisation is idempotent: sanitising a name that is
  already sanitised returns it unchanged, for every name.
\<close>

theorem sanitizeToolName_idempotent:
  "sanitizeToolName (sanitizeToolName x) = sanitizeToolName x"
  by (simp add: sanitizeToolName_map)

section \<open>Dispatch leaves the model and the clock alone\<close>

lemma handleDatabaseTool_frame:
  "handleDatabaseTool b call w = (r, w') \<Longrightarrow>
     sleeps w' = sleeps w \<and> llm_requests w' = llm_requests w \<and> provider_calls w' = provider_calls w"
  by (auto simp: handleDatabaseTool_def split: option.splits jval.splits prod.splits sum.splits)

lemma handleToolCalls_from_frame:
  "handleToolCalls_from b env calls results w = (r, w') \<Longrightarrow>
     sleeps w' = sleeps w \<and> llm_requests w' = llm_requests w"
proof (induction calls arbitrary: results w)
  case Nil
  then show ?case by simp
next
  case (Cons call rest)
  show ?case
  proof (cases "toolMap b (Name call)")
    case None
    with Cons.prems show ?thesis by simp
  next
    case (Some mcpName)
    show ?thesis
    proof (cases "mcpName = ''query_database''")
      case True
      obtain r1 w1 where h: "handleDatabaseTool b call w = (r1, w1)" by fastforce
      from handleDatabaseTool_frame [OF h] have f: "sleeps w1 = sleeps w" "llm_requests w1 = llm_requests w" by simp_all
      show ?thesis
      proof (cases r1)
        case (Inl e)
        with Cons.prems Some True h f show ?thesis by simp
      next
        case (Inr res)
        with Cons.prems Some True h have "handleToolCalls_from b env rest (results @ [res]) w1 = (r, w')" by simp
        from Cons.IH [OF this] f show ?thesis by simp
      qed
    next
      case False
      show ?thesis
      proof (cases "length (SplitN_slash_2 mcpName) \<noteq> 2")
        case True
        with Cons.prems Some False show ?thesis by simp
      next
        case two: False
        show ?thesis
        proof (cases "serverMap b (SplitN_slash_2 mcpName ! 0)")
          case None
          with Cons.prems Some False two show ?thesis by (simp add: Let_def)
        next
          case (Some client)
          let ?args = "convertArgs env (Arguments call)"
          let ?w1 = "w\<lparr>provider_calls := provider_calls w @ [(client, SplitN_slash_2 mcpName ! 1, ?args)]\<rparr>"
          show ?thesis
          proof (cases "CallTool env (length (provider_calls w)) client (SplitN_slash_2 mcpName ! 1) ?args")
            case (Inl e)
            with Cons.prems \<open>toolMap b (Name call) = Some mcpName\<close> False two Some show ?thesis
              by (auto simp add: Let_def)
          next
            case (Inr texts)
            with Cons.prems \<open>toolMap b (Name call) = Some mcpName\<close> False two Some
            have "handleToolCalls_from b env rest
                    (results @ [\<lparr>tool_call_id = ID call, output_text = formatToolResult env (map TextContent texts)\<rparr>]) ?w1 = (r, w')"
              by (simp add: Let_def)
            from Cons.IH [OF this] show ?thesis by simp
          qed
        qed
      qed
    qed
  qed
qed

section \<open>The retry loop\<close>

lemma isRetryableError_Wrapped [simp]:
  "isRetryableError (Some (Wrapped p e)) = isRetryableError (Some e)"
  by simp

declare isRetryableError.simps [simp del]

lemma generateLLMResponse_eq:
  "generateLLMResponse b env msg w =
     ((case chat env (length (llm_requests w)) (generate_messages b msg) of
         Inl e \<Rightarrow> Inl (Wrapped ''failed to send request'' e) | Inr resp \<Rightarrow> Inr resp),
      w\<lparr>llm_requests := llm_requests w @ [generate_messages b msg]\<rparr>)"
  by (simp add: generateLLMResponse_def GenerateResponse_def llm_sendRequest_def split: sum.splits)

lemma retry_loop_success:
  "attempts < 3 \<Longrightarrow> chat env (length (llm_requests w)) (generate_messages b msg) = Inr resp \<Longrightarrow>
   retry_loop b env msg attempts backoff response err w =
     (LoopEnd (Some resp) None, w\<lparr>llm_requests := llm_requests w @ [generate_messages b msg]\<rparr>)"
  by (subst retry_loop.simps) (simp add: generateLLMResponse_eq)


lemma retry_loop_again:
  "attempts < 3 \<Longrightarrow> chat env (length (llm_requests w)) (generate_messages b msg) = Inl e \<Longrightarrow>
   isRetryableError (Some e) \<Longrightarrow>
   retry_loop b env msg attempts backoff response err w =
     retry_loop b env msg (attempts + 1) (backoff * 2) None (Some (Wrapped ''failed to send request'' e))
       (w\<lparr>llm_requests := llm_requests w @ [generate_messages b msg], sleeps := sleeps w @ [backoff]\<rparr>)"
  by (subst retry_loop.simps) (simp add: generateLLMResponse_eq)


lemma retry_twice_then_success:
  assumes c0: "chat env (length (llm_requests w)) (generate_messages b msg) = Inl e1"
    and t0: "isRetryableError (Some e1)"
    and c1: "chat env (length (llm_requests w) + 1) (generate_messages b msg) = Inl e2"
    and t1: "isRetryableError (Some e2)"
    and c2: "chat env (length (llm_requests w) + 2) (generate_messages b msg) = Inr resp"
  shows "retry_loop b env msg 0 Second None None w =
     (LoopEnd (Some resp) None,
      w\<lparr>llm_requests := llm_requests w @ [generate_messages b msg, generate_messages b msg, generate_messages b msg],
        sleeps := sleeps w @ [Second, 2 * Second]\<rparr>)"
proof -
  let ?req = "generate_messages b msg"
  let ?w1 = "w\<lparr>llm_requests := llm_requests w @ [?req], sleeps := sleeps w @ [Second]\<rparr>"
  let ?w2 = "?w1\<lparr>llm_requests := llm_requests ?w1 @ [?req], sleeps := sleeps ?w1 @ [Second * 2]\<rparr>"
  have "retry_loop b env msg 0 Second None None w =
        retry_loop b env msg (0 + 1) (Second * 2) None (Some (Wrapped ''failed to send request'' e1)) ?w1"
    by (rule retry_loop_again) (use c0 t0 in simp_all)
  also have "\<dots> = retry_loop b env msg (0 + 1 + 1) (Second * 2 * 2) None
                      (Some (Wrapped ''failed to send request'' e2)) ?w2"
    by (rule retry_loop_again) (use c1 t1 in simp_all)
  also have "\<dots> = (LoopEnd (Some resp) None, ?w2\<lparr>llm_requests := llm_requests ?w2 @ [?req]\<rparr>)"
    by (rule retry_loop_success) (use c2 in simp_all)
  finally show ?thesis by simp
qed


lemma retry_once_then:
  assumes c0: "chat env (length (llm_requests w)) (generate_messages b msg) = Inl e1"
    and t0: "isRetryableError (Some e1)"
  shows "retry_loop b env msg 0 Second None None w =
     retry_loop b env msg (0 + 1) (Second * 2) None (Some (Wrapped ''failed to send request'' e1))
       (w\<lparr>llm_requests := llm_requests w @ [generate_messages b msg], sleeps := sleeps w @ [Second]\<rparr>)"
  by (rule retry_loop_again) (use c0 t0 in simp_all)






section \<open>Unknown tools\<close>

lemma handleToolCalls_from_append:
  "handleToolCalls_from b env (xs @ ys) results w =
     (case handleToolCalls_from b env xs results w of
        (Inl e, w') \<Rightarrow> (Inl e, w')
      | (Inr rs, w') \<Rightarrow> handleToolCalls_from b env ys rs w')"
  by (induction xs arbitrary: results w)
     (auto simp: Let_def split: option.splits sum.splits prod.splits)

lemma handleToolCalls_single_from_append:
  "handleToolCalls_single_from b env (xs @ ys) results w =
     (case handleToolCalls_single_from b env xs results w of
        (Inl e, w') \<Rightarrow> (Inl e, w')
      | (Inr rs, w') \<Rightarrow> handleToolCalls_single_from b env ys rs w')"
  by (induction xs arbitrary: results w)
     (auto simp: Let_def split: option.splits sum.splits prod.splits jval.splits)

text \<open>
  Claim C7. In a list of tool-call requests, a request whose name is not in the
  registry ends the dispatch: unless an earlier request has already failed, the
  result is the error \<^verbatim>\<open>unknown tool: <name>\<close>, and the world is the one left by the
  requests before it, so neither that request nor any later one reaches a provider
  session or the database. This holds for both variants of \<^verbatim>\<open>handleToolCalls\<close>.
\<close>

theorem unknown_tool_fails_fast:
  assumes "toolMap b (Name call) = None"
  shows "handleToolCalls b env (earlier @ call # later) w =
           (case handleToolCalls b env earlier w of
              (Inl e, w') \<Rightarrow> (Inl e, w')
            | (Inr results, w') \<Rightarrow> (Inl (ErrorString (''unknown tool: '' @ Name call)), w')) \<and>
         handleToolCalls_single b env (earlier @ call # later) w =
           (case handleToolCalls_single b env earlier w of
              (Inl e, w') \<Rightarrow> (Inl e, w')
            | (Inr results, w') \<Rightarrow> (Inl (ErrorString (''unknown tool: '' @ Name call)), w'))"
  using assms
  by (simp add: handleToolCalls_def handleToolCalls_single_def handleToolCalls_from_append
        handleToolCalls_single_from_append split: prod.splits sum.splits)

section \<open>The sample bridge\<close>

lemma price_bridge_toolMap:
  "toolMap price_bridge =
     [''query_database'' \<mapsto> ''query_database'', ''fetch_price'' \<mapsto> ''priceserver/fetch price'']"
  by (simp add: price_bridge_def Initialize_def New_def price_providers_def price_tool_def
        sanitizeToolName_def)

lemma price_bridge_serverMap:
  "serverMap price_bridge = [''priceserver'' \<mapsto> 7]"
  by (simp add: price_bridge_def Initialize_def New_def price_providers_def price_tool_def)

lemma price_bridge_dbTool:
  "dbTool price_bridge = example_db"
  by (simp add: price_bridge_def Initialize_def New_def price_providers_def price_tool_def)

text \<open>Three requests, the second unknown: one provider call, for the first.\<close>

theorem unknown_tool_fails_fast_witness:
  "toolMap price_bridge ''get_weather'' = None \<and>
   handleToolCalls price_bridge (endpoints_with flaky_model)
     [\<lparr>ID = ''call_1'', Type = ''function'', Name = ''fetch_price'',
       Arguments = [(''symbol'', JStr ''ACME'')]\<rparr>,
      \<lparr>ID = ''call_2'', Type = ''function'', Name = ''get_weather'', Arguments = []\<rparr>,
      \<lparr>ID = ''call_3'', Type = ''function'', Name = ''fetch_price'',
       Arguments = [(''symbol'', JStr ''INIT'')]\<rparr>] new_world =
     (Inl (ErrorString ''unknown tool: get_weather''),
      new_world\<lparr>provider_calls := [(7, ''fetch price'', [(''symbol'', JStr ''ACME'')])]\<rparr>)"
proof -
  let ?c1 = "\<lparr>ID = ''call_1'', Type = ''function'', Name = ''fetch_price'',
       Arguments = [(''symbol'', JStr ''ACME'')]\<rparr>"
  let ?c2 = "\<lparr>ID = ''call_2'', Type = ''function'', Name = ''get_weather'', Arguments = []\<rparr>"
  let ?c3 = "\<lparr>ID = ''call_3'', Type = ''function'', Name = ''fetch_price'',
       Arguments = [(''symbol'', JStr ''INIT'')]\<rparr>"
  have unknown: "toolMap price_bridge (Name ?c2) = None"
    by (simp add: price_bridge_toolMap)
  have first: "handleToolCalls price_bridge (endpoints_with flaky_model) [?c1] new_world =
      (Inr [\<lparr>tool_call_id = ''call_1'', output_text = ''42.50''\<rparr>],
       new_world\<lparr>provider_calls := [(7, ''fetch price'', [(''symbol'', JStr ''ACME'')])]\<rparr>)"
    by (simp add: handleToolCalls_def price_bridge_toolMap price_bridge_serverMap SplitN_slash_2_def
          convertArgs_def endpoints_with_def new_world_def formatToolResult_def TrimSpace_def isSpace_def)
  from unknown_tool_fails_fast [OF unknown, of "endpoints_with flaky_model" "[?c1]" "[?c3]" new_world]
  show ?thesis using unknown first by simp
qed

section \<open>Registration and dispatch\<close>

lemma SplitN_slash_2_join:
  "CHR ''/'' \<notin> set serverName \<Longrightarrow> SplitN_slash_2 (serverName @ CHR ''/'' # name) = [serverName, name]"
  by (simp add: SplitN_slash_2_def takeWhile_append dropWhile_append)

lemma register_tools_roundtrip:
  assumes "CHR ''/'' \<notin> set serverName"
    and "b' = (register_tools serverName [tool] b)\<lparr>serverMap := (serverMap b)(serverName \<mapsto> client)\<rparr>"
    and "Name call = sanitizeToolName (tool_Name tool)"
  shows "provider_calls (snd (handleToolCalls b' env [call] w)) =
           provider_calls w @ [(client, tool_Name tool, convertArgs env (Arguments call))]"
proof -
  have "serverName @ ''/'' @ tool_Name tool \<noteq> ''query_database''"
  proof
    assume "serverName @ ''/'' @ tool_Name tool = ''query_database''"
    then have "CHR ''/'' \<in> set ''query_database''"
      by (metis in_set_conv_decomp append_Cons append_Nil)
    then show False by simp
  qed
  with assms show ?thesis
    by (simp add: handleToolCalls_def SplitN_slash_2_join Let_def split: sum.splits)
qed

text \<open>
  Claim C8. Registration followed by dispatch is a round trip. The sample bridge is
  initialised with the provider \<^verbatim>\<open>priceserver\<close> (session 7) listing the tool
  \<^verbatim>\<open>fetch price\<close>: the tool is registered under \<^verbatim>\<open>fetch_price\<close>, and a tool-call request
  for \<^verbatim>\<open>fetch_price\<close> calls the native tool \<^verbatim>\<open>fetch price\<close> on the session of
  \<^verbatim>\<open>priceserver\<close>, whatever the arguments and the provider's answer.
\<close>

theorem fetch_price_roundtrip:
  "sanitizeToolName ''fetch price'' = ''fetch_price'' \<and>
   toolMap price_bridge ''fetch_price'' = Some ''priceserver/fetch price'' \<and>
   serverMap price_bridge ''priceserver'' = Some 7 \<and>
   provider_calls (snd (handleToolCalls price_bridge env
       [\<lparr>ID = call_id, Type = call_type, Name = ''fetch_price'', Arguments = arguments\<rparr>] w)) =
     provider_calls w @ [(7, ''fetch price'', convertArgs env arguments)]"
  by (simp add: sanitizeToolName_def price_bridge_toolMap price_bridge_serverMap handleToolCalls_def
        SplitN_slash_2_def Let_def split: sum.splits)

section \<open>Rows of a query result\<close>

lemma scan_row_dom:
  "fst ` set (scan_row columns vals r) =
     fst ` set r \<union> {c. \<exists>v. (c, Some v) \<in> set (zip columns vals)}"
proof (induction columns vals r rule: scan_row.induct)
  case (3 col columns val vals r)
  show ?case
  proof (cases val)
    case None
    with 3 show ?thesis by auto
  next
    case (Some v)
    with 3 have "fst ` set (scan_row columns vals (AList.update col (convert_bytes v) r)) =
       fst ` set (AList.update col (convert_bytes v) r) \<union> {c. \<exists>v. (c, Some v) \<in> set (zip columns vals)}"
      by simp
    with Some show ?thesis
      by (simp add: dom_update) blast
  qed
qed simp_all

lemma set_update_subset:
  "set (AList.update k v al) \<subseteq> insert (k, v) (set al)"
  by (induction al) auto

lemma convert_bytes_no_bytes: "convert_bytes v \<noteq> VBytes b"
  by (cases v) (simp_all add: convert_bytes_def)

lemma scan_row_no_bytes:
  "\<forall>p\<in>set r. \<forall>b. snd p \<noteq> VBytes b \<Longrightarrow> \<forall>p\<in>set (scan_row columns vals r). \<forall>b. snd p \<noteq> VBytes b"
proof (induction columns vals r rule: scan_row.induct)
  case (3 col columns val vals r)
  show ?case
  proof (cases val)
    case None
    with 3 show ?thesis by simp
  next
    case (Some v)
    have "\<forall>p\<in>set (AList.update col (convert_bytes v) r). \<forall>b. snd p \<noteq> VBytes b"
    proof
      fix p assume "p \<in> set (AList.update col (convert_bytes v) r)"
      with set_update_subset have "p = (col, convert_bytes v) \<or> p \<in> set r" by fastforce
      with "3.prems" show "\<forall>b. snd p \<noteq> VBytes b"
        by (auto simp: convert_bytes_no_bytes)
    qed
    with 3 Some show ?thesis by simp
  qed
qed simp_all

lemma scan_row_lookup_other:
  "c \<notin> set columns \<Longrightarrow> map_of (scan_row columns vals r) c = map_of r c"
proof (induction columns vals r rule: scan_row.induct)
  case (3 col columns val vals r)
  then show ?case
    by (cases val) (simp_all add: update_conv')
qed simp_all

lemma scan_row_lookup:
  "distinct columns \<Longrightarrow> length vals = length columns \<Longrightarrow> i < length columns \<Longrightarrow>
   map_of (scan_row columns vals r) (columns ! i) =
     (case vals ! i of None \<Rightarrow> map_of r (columns ! i) | Some v \<Rightarrow> Some (convert_bytes v))"
proof (induction columns vals r arbitrary: i rule: scan_row.induct)
  case (3 col columns val vals r)
  show ?case
  proof (cases i)
    case 0
    with 3 show ?thesis
      by (cases val) (simp_all add: scan_row_lookup_other update_conv')
  next
    case (Suc k)
    with "3.prems" have k: "k < length columns" "distinct columns" "length vals = length columns"
      and ne: "columns ! k \<noteq> col"
      by auto
    show ?thesis
    proof (cases val)
      case None
      with "3.IH"(1) [OF None k(2,3,1)] Suc show ?thesis by (simp split: option.splits)
    next
      case (Some v)
      with "3.IH"(2) [OF Some k(2,3,1)] Suc ne show ?thesis
        by (simp add: update_conv' split: option.splits)
    qed
  qed
qed simp_all

lemma scan_rows_all:
  "\<forall>vals\<in>set raw. length vals = length columns \<Longrightarrow>
   scan_rows columns (map Inr raw) results = Inr (results @ map (\<lambda>vals. scan_row columns vals []) raw)"
  by (induction raw arbitrary: results) simp_all

lemma Execute_rows:
  assumes "validateQuery t query = None"
    and "db_Query t query = Inr \<lparr>Columns = Inr columns, Scans = map Inr raw\<rparr>"
    and "\<forall>vals\<in>set raw. length vals = length columns"
  shows "Execute t [(''query'', JStr query)] executed =
           (Inr (map (\<lambda>vals. scan_row columns vals []) raw), executed @ [query])"
  using assms by (simp add: Execute_def scan_rows_all)

lemma example_valid: "validateQuery example_db ''SELECT name, email FROM users'' = None"
  by (simp add: validateQuery_def example_db_def ToLower_def ToLower_char_def)

lemma example_Execute:
  "Execute example_db [(''query'', JStr ''SELECT name, email FROM users'')] [] =
     (Inr [[(''name'', VString ''Alice Smith''), (''email'', VString ''alice@example.com'')],
           [(''name'', VString ''Dave Black'')]],
      [''SELECT name, email FROM users''])"
  by (simp add: Execute_def example_valid) (simp add: example_db_def convert_bytes_def)

text \<open>
  Claim C10. For a query that passes validation and is answered by the engine, every
  returned row has a key exactly for the columns whose value is not NULL, holds no
  byte slice, and (column names being distinct) maps a column to its value, a byte
  slice converted to a string. The rows of one result need not have the same keys:
  on the sample database the second row lacks the key \<^verbatim>\<open>email\<close>.
\<close>

theorem Execute_omits_null_converts_bytes:
  "(validateQuery t query = None \<and>
    db_Query t query = Inr \<lparr>Columns = Inr columns, Scans = map Inr raw\<rparr> \<and>
    (\<forall>vals\<in>set raw. length vals = length columns) \<longrightarrow>
    (\<exists>rows. Execute t [(''query'', JStr query)] executed = (Inr rows, executed @ [query]) \<and>
       length rows = length raw \<and>
       (\<forall>j<length raw.
          fst ` set (rows ! j) = {c. \<exists>i<length columns. columns ! i = c \<and> raw ! j ! i \<noteq> None} \<and>
          (\<forall>p\<in>set (rows ! j). \<forall>b. snd p \<noteq> VBytes b) \<and>
          (distinct columns \<longrightarrow>
             (\<forall>i<length columns.
                map_of (rows ! j) (columns ! i) =
                  (case raw ! j ! i of
                     None \<Rightarrow> None
                   | Some (VBytes b) \<Rightarrow> Some (VString b)
                   | Some v \<Rightarrow> Some v)))))) \<and>
   (\<exists>row1 row2.
      fst (Execute example_db [(''query'', JStr ''SELECT name, email FROM users'')] []) = Inr [row1, row2] \<and>
      fst ` set row1 \<noteq> fst ` set row2)"
proof (intro conjI impI)
  assume h: "validateQuery t query = None \<and>
    db_Query t query = Inr \<lparr>Columns = Inr columns, Scans = map Inr raw\<rparr> \<and>
    (\<forall>vals\<in>set raw. length vals = length columns)"
  let ?rows = "map (\<lambda>vals. scan_row columns vals []) raw"
  have ex: "Execute t [(''query'', JStr query)] executed = (Inr ?rows, executed @ [query])"
    using h by (intro Execute_rows) auto
  have each: "fst ` set (?rows ! j) = {c. \<exists>i<length columns. columns ! i = c \<and> raw ! j ! i \<noteq> None} \<and>
          (\<forall>p\<in>set (?rows ! j). \<forall>b. snd p \<noteq> VBytes b) \<and>
          (distinct columns \<longrightarrow>
             (\<forall>i<length columns.
                map_of (?rows ! j) (columns ! i) =
                  (case raw ! j ! i of
                     None \<Rightarrow> None
                   | Some (VBytes b) \<Rightarrow> Some (VString b)
                   | Some v \<Rightarrow> Some v)))" if j: "j < length raw" for j
  proof -
    from h j have len: "length (raw ! j) = length columns" by simp
    have row: "?rows ! j = scan_row columns (raw ! j) []" using j by simp
    have "{c. \<exists>v. (c, Some v) \<in> set (zip columns (raw ! j))} =
          {c. \<exists>i<length columns. columns ! i = c \<and> raw ! j ! i \<noteq> None}"
      using len by (auto simp: set_zip) (metis, metis)
    then have a: "fst ` set (?rows ! j) = {c. \<exists>i<length columns. columns ! i = c \<and> raw ! j ! i \<noteq> None}"
      by (simp only: row scan_row_dom) simp
    have b: "\<forall>p\<in>set (?rows ! j). \<forall>b. snd p \<noteq> VBytes b"
      unfolding row by (rule scan_row_no_bytes) simp
    have c: "map_of (?rows ! j) (columns ! i) =
                  (case raw ! j ! i of
                     None \<Rightarrow> None
                   | Some (VBytes b) \<Rightarrow> Some (VString b)
                   | Some v \<Rightarrow> Some v)" if "distinct columns" "i < length columns" for i
      unfolding row using scan_row_lookup [OF that(1) len that(2), of "[]"]
      by (simp add: convert_bytes_def split: option.splits sqlval.splits)
    from a b c show ?thesis by blast
  qed
  show "\<exists>rows. Execute t [(''query'', JStr query)] executed = (Inr rows, executed @ [query]) \<and>
       length rows = length raw \<and>
       (\<forall>j<length raw.
          fst ` set (rows ! j) = {c. \<exists>i<length columns. columns ! i = c \<and> raw ! j ! i \<noteq> None} \<and>
          (\<forall>p\<in>set (rows ! j). \<forall>b. snd p \<noteq> VBytes b) \<and>
          (distinct columns \<longrightarrow>
             (\<forall>i<length columns.
                map_of (rows ! j) (columns ! i) =
                  (case raw ! j ! i of
                     None \<Rightarrow> None
                   | Some (VBytes b) \<Rightarrow> Some (VString b)
                   | Some v \<Rightarrow> Some v))))"
    using ex each by (intro exI [of _ ?rows]) simp
next
  show "\<exists>row1 row2.
      fst (Execute example_db [(''query'', JStr ''SELECT name, email FROM users'')] []) = Inr [row1, row2] \<and>
      fst ` set row1 \<noteq> fst ` set row2"
    by (simp add: example_Execute)
qed

text \<open>The sample query: a byte slice in the first row, a NULL in the second.\<close>

theorem Execute_omits_null_converts_bytes_witness:
  "validateQuery example_db ''SELECT name, email FROM users'' = None \<and>
   db_Query example_db ''SELECT name, email FROM users'' =
     Inr \<lparr>Columns = Inr [''name'', ''email''],
          Scans = map Inr [[Some (VBytes ''Alice Smith''), Some (VString ''alice@example.com'')],
                           [Some (VString ''Dave Black''), None]]\<rparr> \<and>
   (\<exists>rows. Execute example_db [(''query'', JStr ''SELECT name, email FROM users'')] [] =
            (Inr rows, [''SELECT name, email FROM users'']) \<and>
          length rows = 2 \<and>
          map_of (rows ! 0) ''name'' = Some (VString ''Alice Smith'') \<and>
          map_of (rows ! 1) ''email'' = None \<and>
          fst ` set (rows ! 1) = {''name''})"
proof -
  let ?q = "''SELECT name, email FROM users''"
  let ?raw = "[[Some (VBytes ''Alice Smith''), Some (VString ''alice@example.com'')],
               [Some (VString ''Dave Black''), None]]"
  have db: "db_Query example_db ?q = Inr \<lparr>Columns = Inr [''name'', ''email''], Scans = map Inr ?raw\<rparr>"
    by (simp add: example_db_def)
  have len: "\<forall>vals\<in>set ?raw. length vals = length [''name'', ''email'']"
    by simp
  from Execute_omits_null_converts_bytes [of example_db ?q "[''name'', ''email'']" ?raw "[]"]
    example_valid db len
  obtain rows where ex: "Execute example_db [(''query'', JStr ?q)] [] = (Inr rows, [] @ [?q])"
    and n: "length rows = length ?raw"
    and each: "\<forall>j<length ?raw.
          fst ` set (rows ! j) = {c. \<exists>i<length [''name'', ''email'']. [''name'', ''email''] ! i = c \<and> ?raw ! j ! i \<noteq> None} \<and>
          (\<forall>p\<in>set (rows ! j). \<forall>b. snd p \<noteq> VBytes b) \<and>
          (distinct [''name'', ''email''] \<longrightarrow>
             (\<forall>i<length [''name'', ''email''].
                map_of (rows ! j) ([''name'', ''email''] ! i) =
                  (case ?raw ! j ! i of
                     None \<Rightarrow> None
                   | Some (VBytes b) \<Rightarrow> Some (VString b)
                   | Some v \<Rightarrow> Some v)))"
    by blast
  from each have "map_of (rows ! 0) ([''name'', ''email''] ! 0) = Some (VString ''Alice Smith'')"
    by (simp add: All_less_Suc)
  moreover from each have "map_of (rows ! 1) ([''name'', ''email''] ! 1) = None"
    by (simp add: All_less_Suc)
  moreover from each have "fst ` set (rows ! 1) = {c. \<exists>i<length [''name'', ''email'']. [''name'', ''email''] ! i = c \<and>
      ?raw ! 1 ! i \<noteq> None}"
    by (simp add: All_less_Suc)
  then have "fst ` set (rows ! 1) = {''name''}"
    by (auto simp: less_Suc_eq)
  ultimately show ?thesis using ex n db example_valid by simp
qed

section \<open>The query SELECT 1\<close>

lemma lower_select_1: "ToLower ''SELECT 1'' = ''select 1''"
  by (simp add: ToLower_def ToLower_char_def)

lemma validateQuery_select_1:
  "validateQuery t ''SELECT 1'' =
     (if \<exists>tableName\<in>set (schemas t). Contains ''select 1'' (ToLower tableName) then None
      else Some (ErrorString ''query must reference a valid table''))"
  by (simp add: validateQuery_def lower_select_1)

lemma formatDatabaseResult_one_cell:
  "formatDatabaseResult [[(col, val)]] =
     pad_right (max (length col) (length (Sprint_v val))) (ToUpper col) @ ''  '' @ [CHR 0x0A] @
     replicate (max (length col) (length (Sprint_v val))) (CHR ''-'') @ ''  '' @ [CHR 0x0A] @
     pad_right (max (length col) (length (Sprint_v val))) (Sprint_v val) @ ''  '' @ [CHR 0x0A]"
  by (simp add: formatDatabaseResult_def format_table_def header_line_def separator_line_def
        data_line_def colWidth_def max_def)

text \<open>
  Claim C5, amended. A tool-call request naming the built-in query tool with the
  query \<^verbatim>\<open>SELECT 1\<close> is rejected by the tool's validation, with
  \<^verbatim>\<open>query must reference a valid table\<close> and without running the statement, unless
  the lower-cased name of some table occurs in \<^verbatim>\<open>select 1\<close>. When one does and the
  engine answers with one row of one column, the dispatch succeeds and the output is
  that cell as a table of three lines: the column name in upper case, dashes, the
  value.
\<close>

theorem select_1_dispatch:
  "toolMap b ''query_database'' = Some ''query_database'' \<and> Name call = ''query_database'' \<and>
   map_of (Arguments call) ''query'' = Some (JStr ''SELECT 1'') \<longrightarrow>
   ((\<forall>tableName\<in>set (schemas (dbTool b)). \<not> Contains ''select 1'' (ToLower tableName)) \<longrightarrow>
      handleToolCalls b env [call] w =
        (Inl (Wrapped ''database query failed''
               (Wrapped ''invalid query'' (ErrorString ''query must reference a valid table''))), w)) \<and>
   ((\<exists>tableName\<in>set (schemas (dbTool b)). Contains ''select 1'' (ToLower tableName)) \<and>
    db_Query (dbTool b) ''SELECT 1'' = Inr \<lparr>Columns = Inr [col], Scans = [Inr [Some val]]\<rparr> \<longrightarrow>
      handleToolCalls b env [call] w =
        (Inr [\<lparr>tool_call_id = ID call,
               output_text =
                 pad_right (max (length col) (length (Sprint_v (convert_bytes val)))) (ToUpper col) @ ''  '' @ [CHR 0x0A] @
                 replicate (max (length col) (length (Sprint_v (convert_bytes val)))) (CHR ''-'') @ ''  '' @ [CHR 0x0A] @
                 pad_right (max (length col) (length (Sprint_v (convert_bytes val)))) (Sprint_v (convert_bytes val)) @
                   ''  '' @ [CHR 0x0A]\<rparr>],
         w\<lparr>queries := queries w @ [''SELECT 1'']\<rparr>))"
proof (intro impI conjI)
  assume h: "toolMap b ''query_database'' = Some ''query_database'' \<and> Name call = ''query_database'' \<and>
   map_of (Arguments call) ''query'' = Some (JStr ''SELECT 1'')"
  assume "\<forall>tableName\<in>set (schemas (dbTool b)). \<not> Contains ''select 1'' (ToLower tableName)"
  then have "validateQuery (dbTool b) ''SELECT 1'' = Some (ErrorString ''query must reference a valid table'')"
    by (simp add: validateQuery_select_1)
  with h show "handleToolCalls b env [call] w =
        (Inl (Wrapped ''database query failed''
               (Wrapped ''invalid query'' (ErrorString ''query must reference a valid table''))), w)"
    by (simp add: handleToolCalls_def handleDatabaseTool_def Execute_def)
next
  assume h: "toolMap b ''query_database'' = Some ''query_database'' \<and> Name call = ''query_database'' \<and>
   map_of (Arguments call) ''query'' = Some (JStr ''SELECT 1'')"
  assume g: "(\<exists>tableName\<in>set (schemas (dbTool b)). Contains ''select 1'' (ToLower tableName)) \<and>
    db_Query (dbTool b) ''SELECT 1'' = Inr \<lparr>Columns = Inr [col], Scans = [Inr [Some val]]\<rparr>"
  then have v: "validateQuery (dbTool b) ''SELECT 1'' = None"
    by (simp add: validateQuery_select_1)
  have ex: "Execute (dbTool b) [(''query'', JStr ''SELECT 1'')] (queries w) =
          (Inr [[(col, convert_bytes val)]], queries w @ [''SELECT 1''])"
    using g v by (simp add: Execute_def)
  from h show "handleToolCalls b env [call] w =
        (Inr [\<lparr>tool_call_id = ID call,
               output_text =
                 pad_right (max (length col) (length (Sprint_v (convert_bytes val)))) (ToUpper col) @ ''  '' @ [CHR 0x0A] @
                 replicate (max (length col) (length (Sprint_v (convert_bytes val)))) (CHR ''-'') @ ''  '' @ [CHR 0x0A] @
                 pad_right (max (length col) (length (Sprint_v (convert_bytes val)))) (Sprint_v (convert_bytes val)) @
                   ''  '' @ [CHR 0x0A]\<rparr>],
         w\<lparr>queries := queries w @ [''SELECT 1'']\<rparr>)"
    by (simp add: handleToolCalls_def handleDatabaseTool_def ex formatDatabaseResult_one_cell)
qed

text \<open>
  Claim C5 as stated fails on the example database (tables \<^verbatim>\<open>users\<close> and \<^verbatim>\<open>orders\<close>):
  the dispatch of \<^verbatim>\<open>SELECT 1\<close> returns an error and nothing is run.
\<close>

theorem select_1_rejected:
  "handleToolCalls price_bridge (endpoints_with flaky_model) [select_1_call] new_world =
     (Inl (Wrapped ''database query failed''
            (Wrapped ''invalid query'' (ErrorString ''query must reference a valid table''))),
      new_world)"
  by (simp add: handleToolCalls_def handleDatabaseTool_def Execute_def validateQuery_def
        price_bridge_toolMap price_bridge_dbTool select_1_call_def example_db_def lower_select_1
        ToLower_def ToLower_char_def)

text \<open>Both cases: a database with a table \<^verbatim>\<open>t\<close>, and the example database.\<close>

theorem select_1_dispatch_witness:
  "handleToolCalls t_bridge (endpoints_with flaky_model) [select_1_call] new_world =
     (Inr [\<lparr>tool_call_id = ''call_1'', output_text = ''1  '' @ [CHR 0x0A] @ ''-  '' @ [CHR 0x0A] @ ''1  '' @ [CHR 0x0A]\<rparr>],
      new_world\<lparr>queries := [''SELECT 1'']\<rparr>) \<and>
   handleToolCalls price_bridge (endpoints_with flaky_model) [select_1_call] new_world =
     (Inl (Wrapped ''database query failed''
            (Wrapped ''invalid query'' (ErrorString ''query must reference a valid table''))),
      new_world)"
proof -
  have call: "Name select_1_call = ''query_database''"
    "map_of (Arguments select_1_call) ''query'' = Some (JStr ''SELECT 1'')" "ID select_1_call = ''call_1''"
    by (simp_all add: select_1_call_def)
  have t: "toolMap t_bridge ''query_database'' = Some ''query_database''"
    "schemas (dbTool t_bridge) = [''t'']"
    "db_Query (dbTool t_bridge) ''SELECT 1'' = Inr \<lparr>Columns = Inr [''1''], Scans = [Inr [Some (VInt 1)]]\<rparr>"
    by (simp_all add: t_bridge_def price_bridge_toolMap example_db_def)
  have p: "toolMap price_bridge ''query_database'' = Some ''query_database''"
    "schemas (dbTool price_bridge) = [''users'', ''orders'']"
    by (simp_all add: price_bridge_toolMap price_bridge_dbTool example_db_def)
  have low: "ToLower ''t'' = ''t''" "ToLower ''users'' = ''users''" "ToLower ''orders'' = ''orders''"
    by (simp_all add: ToLower_def ToLower_char_def)
  have out: "Sprint_v (convert_bytes (VInt 1)) = ''1''" "ToUpper ''1'' = ''1''"
    by (simp_all add: convert_bytes_def Sprint_int_def digits.simps ToUpper_def ToUpper_char_def)
  from select_1_dispatch [of t_bridge select_1_call "endpoints_with flaky_model" new_world "''1''" "VInt 1"]
  have "handleToolCalls t_bridge (endpoints_with flaky_model) [select_1_call] new_world =
     (Inr [\<lparr>tool_call_id = ''call_1'', output_text = ''1  '' @ [CHR 0x0A] @ ''-  '' @ [CHR 0x0A] @ ''1  '' @ [CHR 0x0A]\<rparr>],
      new_world\<lparr>queries := [''SELECT 1'']\<rparr>)"
    by (simp add: call t low out pad_right_def new_world_def)
  moreover
  from select_1_dispatch [of price_bridge select_1_call "endpoints_with flaky_model" new_world]
  have "handleToolCalls price_bridge (endpoints_with flaky_model) [select_1_call] new_world =
     (Inl (Wrapped ''database query failed''
            (Wrapped ''invalid query'' (ErrorString ''query must reference a valid table''))),
      new_world)"
    by (simp add: call p low)
  ultimately show ?thesis by simp
qed

section \<open>The background reader\<close>

lemma read_line_respChan:
  "respChan (read_line sprint line r) =
     respChan r @
       (case line of
          None \<Rightarrow> []
        | Some msg \<Rightarrow>
            if map_of msg ''method'' \<noteq> Some (JStr ''notify'') \<and> map_of msg ''result'' \<noteq> None
            then [msg] else [])"
  by (cases line) (auto split: option.splits jval.splits)

lemma readResponses_None:
  "readResponses sprint (None # lines) r = readResponses sprint lines r"
  by simp

text \<open>
  Claim C1, amended. Of the lines the reader takes from the provider's output, those
  that do not parse as a JSON object have no effect at all; a parsed message whose
  \<^verbatim>\<open>method\<close> is the string \<^verbatim>\<open>notify\<close> is never delivered; and the messages delivered
  to the waiting caller are, in order, exactly the other parsed messages that have a
  \<^verbatim>\<open>result\<close> field. So a message with a \<^verbatim>\<open>method\<close> and no \<^verbatim>\<open>result\<close> is never
  delivered, and neither is a message that carries only an \<^verbatim>\<open>error\<close>.
\<close>

theorem readResponses_delivery:
  "readResponses sprint (filter (\<lambda>line. line \<noteq> None) lines) r = readResponses sprint lines r \<and>
   respChan (readResponses sprint lines r) =
     respChan r @
       [msg. Some msg \<leftarrow> lines,
             map_of msg ''method'' \<noteq> Some (JStr ''notify'') \<and> map_of msg ''result'' \<noteq> None]"
proof
  show "readResponses sprint (filter (\<lambda>line. line \<noteq> None) lines) r = readResponses sprint lines r"
    by (induction lines arbitrary: r) auto
  show "respChan (readResponses sprint lines r) =
     respChan r @
       [msg. Some msg \<leftarrow> lines,
             map_of msg ''method'' \<noteq> Some (JStr ''notify'') \<and> map_of msg ''result'' \<noteq> None]"
  proof (induction lines arbitrary: r)
    case Nil
    show ?case by simp
  next
    case (Cons line lines)
    show ?case
      by (cases line) (simp_all add: Cons.IH read_line_respChan del: read_line.simps)
  qed
qed

text \<open>
  Claim C1 as stated fails for a response that carries an error payload: it is
  dropped, without a log entry, and the channel stays empty.
\<close>

theorem error_response_not_delivered:
  "readResponses Sprint_params
     [Some [(''jsonrpc'', JStr ''2.0''), (''id'', JNum 4),
            (''error'', JObj [(''code'', JNum (- 32601)), (''message'', JStr ''Method not found'')])]]
     new_reader =
   \<lparr>logged = [], respChan = [], respChan_closed = True\<rparr>"
  by (simp add: new_reader_def)


text \<open>The sample stream: only the response with a result reaches the channel.\<close>

theorem readResponses_delivery_witness:
  "respChan (readResponses Sprint_params sample_stream new_reader) =
     [[(''jsonrpc'', JStr ''2.0''), (''id'', JNum 1), (''result'', JObj [(''tools'', JArr [])])]]"
  using readResponses_delivery [of Sprint_params sample_stream new_reader]
  by (simp add: sample_stream_def new_reader_def)

section \<open>Teardown of a session\<close>

lemma Bridge_Close_collects:
  "Bridge_Close_errs (Some e1) [(''a'', Some e2), (''b'', None), (''c'', Some e3)] =
     [Wrapped ''database tool'' e1, Wrapped ''MCP server a'' e2, Wrapped ''MCP server c'' e3]"
  by (simp add: Bridge_Close_errs_def)

text \<open>
  Claim C6 does not hold of \<^verbatim>\<open>MCPClient.Close\<close>, which returns at the first failing
  step. When closing the input stream fails, the output stream is not closed and the
  process is neither killed nor waited for; when the kill returns an error,
  \<^verbatim>\<open>cmd.Wait()\<close> is never called. \<^verbatim>\<open>Bridge.Close\<close>, in contrast, gathers the errors
  and goes on.
\<close>

theorem Close_short_circuits:
  "MCPClient_Close \<lparr>stdin_Close = Some (ErrorString ''file already closed''), stdout_Close = None,
                    Process_Kill = None, cmd_Wait = None\<rparr> =
     ([Stdin_Close], Some (Wrapped ''failed to close stdin'' (ErrorString ''file already closed''))) \<and>
   MCPClient_Close \<lparr>stdin_Close = None, stdout_Close = None,
                    Process_Kill = Some (ErrorString ''os: process already finished''), cmd_Wait = None\<rparr> =
     ([Stdin_Close, Stdout_Close, Kill],
      Some (Wrapped ''failed to kill process'' (ErrorString ''os: process already finished'')))"
  by (simp add: MCPClient_Close_def)


section \<open>Concurrent callers on one session\<close>

text \<open>
  Claim C2 does not hold of the client: the mutex covers only the write in
  \<^verbatim>\<open>sendRequest\<close>. With two callers, both requests are outstanding at once (first
  schedule), and the response to request 1 is received by the caller that sent
  request 2 (second schedule). With a single caller, a response that arrives after
  the timeout of request 1 is received by the next call, request 2 (third schedule).
\<close>

theorem responses_cross_between_callers:
  "(\<exists>s. run [Build 0, Lock 0, Write 0, Unlock 0, Build 1, Lock 1, Write 1, Unlock 1] new_session = Some s \<and>
        callers s 0 = Waiting 1 \<and> callers s 1 = Waiting 2 \<and> provider_stdin s = [1, 2]) \<and>
   (\<exists>s. run [Build 0, Lock 0, Write 0, Unlock 0, Build 1, Lock 1, Write 1, Unlock 1,
             Answer 1, Forward, Receive 1] new_session = Some s \<and>
        callers s 0 = Waiting 1 \<and> callers s 1 = Received 2 1) \<and>
   (\<exists>s. run [Build 0, Lock 0, Write 0, Unlock 0, Timeout 0, Answer 1, Forward,
             Build 0, Lock 0, Write 0, Unlock 0, Receive 0] new_session = Some s \<and>
        callers s 0 = Received 2 1)"
  by (simp add: new_session_def returned_def)

section \<open>Tool calls in the model's response\<close>

lemma handleToolCalls_from_length:
  "handleToolCalls_from b env calls results w = (Inr rs, w') \<Longrightarrow> length rs = length results + length calls"
proof (induction calls arbitrary: results w)
  case Nil
  then show ?case by simp
next
  case (Cons call rest)
  from Cons.prems show ?case
    by (auto simp: Let_def dest!: Cons.IH split: option.splits if_splits prod.splits sum.splits)
qed

lemma handleToolCalls_single_from_length:
  "handleToolCalls_single_from b env calls results w = (Inr rs, w') \<Longrightarrow>
     length rs = length results + length calls"
proof (induction calls arbitrary: results w)
  case Nil
  then show ?case by simp
next
  case (Cons call rest)
  from Cons.prems show ?case
    by (auto simp: Let_def dest!: Cons.IH split: option.splits if_splits prod.splits sum.splits jval.splits)
qed

lemma handleToolCalls_single_from_frame:
  "handleToolCalls_single_from b env calls results w = (r, w') \<Longrightarrow>
     sleeps w' = sleeps w \<and> llm_requests w' = llm_requests w \<and> provider_calls w' = provider_calls w"
proof (induction calls arbitrary: results w)
  case Nil
  then show ?case by simp
next
  case (Cons call rest)
  from Cons.prems show ?case
    by (auto simp: Let_def dest!: Cons.IH split: option.splits if_splits prod.splits sum.splits jval.splits)
qed

lemma users_table:
  "Execute example_db [(''query'', JStr ''SELECT name, email FROM users'')] q =
     (Inr [[(''name'', VString ''Alice Smith''), (''email'', VString ''alice@example.com'')],
           [(''name'', VString ''Dave Black'')]],
      q @ [''SELECT name, email FROM users''])"
  by (simp add: Execute_def example_valid) (simp add: example_db_def convert_bytes_def)


lemma retry_first_success:
  "chat env (length (llm_requests w)) (generate_messages b msg) = Inr resp \<Longrightarrow>
   retry_loop b env msg 0 Second None None w =
     (LoopEnd (Some resp) None, w\<lparr>llm_requests := llm_requests w @ [generate_messages b msg]\<rparr>)"
  by (rule retry_loop_success) simp_all

lemma generateLLMResponseWithTools_eq:
  "generateLLMResponseWithTools b env toolResults w =
     (chat env (length (llm_requests w)) (continue_messages b toolResults),
      w\<lparr>llm_requests := llm_requests w @ [continue_messages b toolResults]\<rparr>)"
  by (simp add: generateLLMResponseWithTools_def ContinueWithToolResults_def llm_sendRequest_def)

lemma users_dispatch_single:
  "handleToolCalls_single price_bridge env [users_call] w =
     (Inr [\<lparr>tool_call_id = ''call_1'',
            output_text = format_table fixed_columns
              [[(''name'', VString ''Alice Smith''), (''email'', VString ''alice@example.com'')],
               [(''name'', VString ''Dave Black'')]]\<rparr>],
      w\<lparr>queries := queries w @ [''SELECT name, email FROM users'']\<rparr>)"
  by (simp add: handleToolCalls_single_def price_bridge_toolMap price_bridge_dbTool users_call_def users_table)

lemma tool_loop_insistent_never_returns:
  "tool_loop b env response lastToolResult w = Some y \<Longrightarrow>
     \<not> (b = price_bridge \<and> env = endpoints_with insistent_model \<and> ToolCalls response = [users_call])"
proof (induct rule: tool_loop.raw_induct [rotated, consumes 1, case_names step])
  case (step loop b env response lastToolResult w y)
  note IH = step(1) and body = step(2)
  show ?case
  proof
    assume inv: "b = price_bridge \<and> env = endpoints_with insistent_model \<and> ToolCalls response = [users_call]"
    let ?b = price_bridge
    let ?env = "endpoints_with insistent_model"
    let ?results = "[\<lparr>tool_call_id = ''call_1'',
            output_text = format_table fixed_columns
              [[(''name'', VString ''Alice Smith''), (''email'', VString ''alice@example.com'')],
               [(''name'', VString ''Dave Black'')]]\<rparr>]"
    let ?w1 = "w\<lparr>queries := queries w @ [''SELECT name, email FROM users'']\<rparr>"
    let ?w2 = "?w1\<lparr>llm_requests := llm_requests ?w1 @ [continue_messages ?b ?results]\<rparr>"
    let ?next = "\<lparr>Content = ''Let me check.'', ToolCalls = [users_call]\<rparr>"
    have cont: "generateLLMResponseWithTools ?b ?env ?results ?w1 = (Inr ?next, ?w2)"
      by (simp add: generateLLMResponseWithTools_eq endpoints_with_def insistent_model_def)
    from body inv have "loop ?b ?env ?next (output_text (hd ?results)) ?w2 = Some y"
      by (simp add: users_dispatch_single cont Let_def)
    from IH [OF this] show False by simp
  qed
qed

lemma clean_content_Nil: "clean_content [] = []"
  by (simp add: clean_content_def ReplaceAll.simps TrimSpace_def)

lemma ProcessMessage_loop_never_returns:
  "ProcessMessage_loop price_bridge (endpoints_with insistent_model) msg w = None"
proof -
  let ?env = "endpoints_with insistent_model"
  let ?resp = "\<lparr>Content = ''Let me check.'', ToolCalls = [users_call]\<rparr>"
  let ?w1 = "w\<lparr>llm_requests := llm_requests w @ [generate_messages price_bridge msg]\<rparr>"
  have gen: "chat ?env (length (llm_requests w)) (generate_messages price_bridge msg) = Inr ?resp"
    by (simp add: endpoints_with_def insistent_model_def)
  have "tool_loop price_bridge ?env ?resp [] ?w1 = None"
  proof (cases "tool_loop price_bridge ?env ?resp [] ?w1")
    case None
    then show ?thesis .
  next
    case (Some y)
    from tool_loop_insistent_never_returns [OF Some] show ?thesis by simp
  qed
  then show ?thesis
    by (simp add: ProcessMessage_loop_def retry_first_success [OF gen])
qed

lemma retry_loop_succeeds_at:
  assumes k: "k < 3"
    and fails: "\<forall>i<k. \<exists>e. chat env (length (llm_requests w) + i) (generate_messages b msg) = Inl e \<and>
                          isRetryableError (Some e)"
    and ok: "chat env (length (llm_requests w) + k) (generate_messages b msg) = Inr resp"
  shows "retry_loop b env msg 0 Second None None w =
     (LoopEnd (Some resp) None,
      w\<lparr>llm_requests := llm_requests w @ replicate (Suc k) (generate_messages b msg),
        sleeps := sleeps w @ take k [Second, 2 * Second, 4 * Second]\<rparr>)"
proof -
  let ?req = "generate_messages b msg"
  from k consider "k = 0" | "k = 1" | "k = 2" by linarith
  then show ?thesis
  proof cases
    case 1
    with ok show ?thesis by (simp add: retry_first_success)
  next
    case 2
    with fails obtain e0 where c0: "chat env (length (llm_requests w)) ?req = Inl e0"
      and t0: "isRetryableError (Some e0)"
      by auto
    let ?w1 = "w\<lparr>llm_requests := llm_requests w @ [?req], sleeps := sleeps w @ [Second]\<rparr>"
    have "retry_loop b env msg (0 + 1) (Second * 2) None (Some (Wrapped ''failed to send request'' e0)) ?w1 =
            (LoopEnd (Some resp) None, ?w1\<lparr>llm_requests := llm_requests ?w1 @ [?req]\<rparr>)"
      by (rule retry_loop_success) (use ok 2 in simp_all)
    with retry_once_then [OF c0 t0] 2 show ?thesis
      by (simp add: numeral_2_eq_2)
  next
    case 3
    with fails obtain e0 where c0: "chat env (length (llm_requests w)) ?req = Inl e0"
      and t0: "isRetryableError (Some e0)"
      by (metis add.right_neutral zero_less_numeral)
    from 3 fails obtain e1 where c1: "chat env (length (llm_requests w) + 1) ?req = Inl e1"
      and t1: "isRetryableError (Some e1)"
      by (metis one_less_numeral_iff semiring_norm(76))
    from ok 3 have c2: "chat env (length (llm_requests w) + 2) ?req = Inr resp" by simp
    from retry_twice_then_success [OF c0 t0 c1 t1 c2] 3 show ?thesis
      by (simp add: numeral_3_eq_3 numeral_2_eq_2)
  qed
qed

lemma ProcessMessage_with_after_generation:
  assumes loop: "retry_loop b env msg 0 Second None None w = (LoopEnd (Some resp) None, w1)"
    and tc: "ToolCalls resp \<noteq> []"
    and frame: "\<And>w r w'. handle b env (ToolCalls resp) w = (r, w') \<Longrightarrow> llm_requests w' = llm_requests w"
    and len: "\<And>w rs w'. handle b env (ToolCalls resp) w = (Inr rs, w') \<Longrightarrow> rs \<noteq> []"
  shows "llm_requests (snd (ProcessMessage_with handle b env msg w)) = llm_requests w1 \<and>
         fst (ProcessMessage_with handle b env msg w) =
           (case fst (handle b env (ToolCalls resp) w1) of
              Inl e \<Rightarrow> Inl (BridgeError ''handle_tools'' ''tool execution failed'' e)
            | Inr toolResults \<Rightarrow> Inr (output_text (hd toolResults)))"
proof -
  obtain r w2 where h: "handle b env (ToolCalls resp) w1 = (r, w2)" by fastforce
  from frame [OF h] have f: "llm_requests w2 = llm_requests w1" .
  show ?thesis
  proof (cases r)
    case (Inl e)
    with h f tc show ?thesis
      by (simp add: ProcessMessage_with_def loop)
  next
    case (Inr rs)
    with h len have "rs \<noteq> []" by blast
    with Inr h f tc show ?thesis
      by (simp add: ProcessMessage_with_def loop)
  qed
qed

lemma tool_loop_rounds:
  assumes n: "0 < n"
    and steps: "\<forall>i<n. ToolCalls (rs i) \<noteq> [] \<and>
                  handleToolCalls_single b env (ToolCalls (rs i)) (ws i) = (Inr (results i), ds i) \<and>
                  chat env (length (llm_requests (ds i))) (continue_messages b (results i)) = Inr (rs (Suc i)) \<and>
                  ws (Suc i) = (ds i)\<lparr>llm_requests := llm_requests (ds i) @ [continue_messages b (results i)]\<rparr>"
    and mid: "\<forall>i<n. 0 < i \<longrightarrow>
                \<not> (Content (rs i) = [] \<or> Content (rs i) = ''<|im_start|>'' \<or> Content (rs i) = ''<|im_end|>'')"
    and fin: "(Content (rs n) = [] \<or> Content (rs n) = ''<|im_start|>'' \<or> Content (rs n) = ''<|im_end|>'') \<or>
              ToolCalls (rs n) = []"
  shows "tool_loop b env (rs 0) lastToolResult (ws 0) =
     Some (Inr (if Content (rs n) = [] \<or> Content (rs n) = ''<|im_start|>'' \<or> Content (rs n) = ''<|im_end|>''
                then (rs n)\<lparr>Content := output_text (hd (results (n - 1)))\<rparr> else rs n,
                output_text (hd (results (n - 1)))),
           ws n)"
  using assms
proof (induction n arbitrary: rs ws results ds lastToolResult)
  case 0
  then show ?case by simp
next
  case (Suc m)
  let ?bare = "\<lambda>c. c = [] \<or> c = ''<|im_start|>'' \<or> c = ''<|im_end|>''"
  from Suc.prems(2) have tc: "ToolCalls (rs 0) \<noteq> []"
    and dispatch: "handleToolCalls_single b env (ToolCalls (rs 0)) (ws 0) = (Inr (results 0), ds 0)"
    and cont: "chat env (length (llm_requests (ds 0))) (continue_messages b (results 0)) = Inr (rs (Suc 0))"
    and w1: "ws (Suc 0) = (ds 0)\<lparr>llm_requests := llm_requests (ds 0) @ [continue_messages b (results 0)]\<rparr>"
    by auto
  from dispatch tc have ne: "results 0 \<noteq> []"
    using handleToolCalls_single_from_length [of b env "ToolCalls (rs 0)" "[]" "ws 0" "results 0" "ds 0"]
    by (auto simp: handleToolCalls_single_def)
  let ?last = "output_text (hd (results 0))"
  have first: "tool_loop b env (rs 0) lastToolResult (ws 0) =
      (if ?bare (Content (rs (Suc 0)))
       then Some (Inr ((rs (Suc 0))\<lparr>Content := ?last\<rparr>, ?last), ws (Suc 0))
       else tool_loop b env (rs (Suc 0)) ?last (ws (Suc 0)))"
    by (subst tool_loop.simps) (simp add: tc dispatch generateLLMResponseWithTools_eq cont ne w1 Let_def)
  show ?case
  proof (cases m)
    case 0
    have stop: "ToolCalls (rs (Suc 0)) = [] \<Longrightarrow>
        tool_loop b env (rs (Suc 0)) ?last (ws (Suc 0)) = Some (Inr (rs (Suc 0), ?last), ws (Suc 0))"
      by (subst tool_loop.simps) simp
    from Suc.prems(4) 0 have "?bare (Content (rs (Suc 0))) \<or> ToolCalls (rs (Suc 0)) = []" by simp
    with first stop 0 show ?thesis by auto
  next
    case (Suc j)
    with Suc.prems(3) have notbare: "\<not> ?bare (Content (rs (Suc 0)))" by auto
    have "tool_loop b env ((\<lambda>i. rs (Suc i)) 0) ?last ((\<lambda>i. ws (Suc i)) 0) =
      Some (Inr (if ?bare (Content ((\<lambda>i. rs (Suc i)) m))
                 then ((\<lambda>i. rs (Suc i)) m)\<lparr>Content := output_text (hd ((\<lambda>i. results (Suc i)) (m - 1)))\<rparr>
                 else (\<lambda>i. rs (Suc i)) m,
                 output_text (hd ((\<lambda>i. results (Suc i)) (m - 1)))),
            (\<lambda>i. ws (Suc i)) m)"
    proof (rule Suc.IH [where ds = "\<lambda>i. ds (Suc i)"])
      show "0 < m" using Suc by simp
      show "\<forall>i<m. ToolCalls (rs (Suc i)) \<noteq> [] \<and>
                  handleToolCalls_single b env (ToolCalls (rs (Suc i))) (ws (Suc i)) =
                    (Inr (results (Suc i)), ds (Suc i)) \<and>
                  chat env (length (llm_requests (ds (Suc i)))) (continue_messages b (results (Suc i))) =
                    Inr (rs (Suc (Suc i))) \<and>
                  ws (Suc (Suc i)) =
                    (ds (Suc i))\<lparr>llm_requests := llm_requests (ds (Suc i)) @ [continue_messages b (results (Suc i))]\<rparr>"
      proof (intro allI impI)
        fix i assume "i < m"
        then have "Suc i < Suc m" by simp
        from Suc.prems(2) [rule_format, OF this]
        show "ToolCalls (rs (Suc i)) \<noteq> [] \<and>
                  handleToolCalls_single b env (ToolCalls (rs (Suc i))) (ws (Suc i)) =
                    (Inr (results (Suc i)), ds (Suc i)) \<and>
                  chat env (length (llm_requests (ds (Suc i)))) (continue_messages b (results (Suc i))) =
                    Inr (rs (Suc (Suc i))) \<and>
                  ws (Suc (Suc i)) =
                    (ds (Suc i))\<lparr>llm_requests := llm_requests (ds (Suc i)) @ [continue_messages b (results (Suc i))]\<rparr>" .
      qed
      show "\<forall>i<m. 0 < i \<longrightarrow> \<not> ?bare (Content (rs (Suc i)))"
        using Suc.prems(3) by auto
      show "?bare (Content (rs (Suc m))) \<or> ToolCalls (rs (Suc m)) = []"
        using Suc.prems(4) by simp
    qed
    with first notbare Suc show ?thesis by simp
  qed
qed

lemma users_fixed_table:
  "format_table fixed_columns
     [[(''name'', VString ''Alice Smith''), (''email'', VString ''alice@example.com'')],
      [(''name'', VString ''Dave Black'')]] =
   ''ID  USER_ID  PRODUCT  PRICE  CREATED_AT  '' @ [CHR 0x0A] @
   ''--  -------  -------  -----  ----------  '' @ [CHR 0x0A] @
   ''                                         '' @ [CHR 0x0A] @
   ''                                         '' @ [CHR 0x0A]"
  by (simp add: format_table_def fixed_columns_def header_line_def separator_line_def data_line_def
        colWidth_def pad_right_def ToUpper_def ToUpper_char_def)

lemma users_fixed_table_cleaned:
  "clean_content
     (''ID  USER_ID  PRODUCT  PRICE  CREATED_AT  '' @ [CHR 0x0A] @
      ''--  -------  -------  -----  ----------  '' @ [CHR 0x0A] @
      ''                                         '' @ [CHR 0x0A] @
      ''                                         '' @ [CHR 0x0A]) =
   ''ID  USER_ID  PRODUCT  PRICE  CREATED_AT  '' @ [CHR 0x0A] @
   ''--  -------  -------  -----  ----------''"
  by (simp add: clean_content_def ReplaceAll.simps TrimSpace_def isSpace_def)

text \<open>
  Claim C3, amended. Let one of the three generation attempts succeed, every earlier
  one having failed with a transient error, with a response that carries tool-call
  requests. The multi-server bridge and \<^verbatim>\<open>bridge/bridge.go\<close> then dispatch the
  requests once: the model has received exactly the generation requests, and the
  result is the output of the first tool result, unchanged, or a \<open>BridgeError\<close> when
  the dispatch fails; nothing is handed back to the model. Only the oldest variant
  runs the generate, dispatch, continue cycle. Each round dispatches the requests of
  the current response, hands the results to the model and takes its answer as the
  next response. After \<open>n\<close> rounds that each succeed, the cycle ends at the first
  answer that carries no tool calls, or whose content is empty or exactly one of the
  marker tags, tool calls or not. With \<open>last\<close> the output of the first result of the
  most recent dispatch, the final content is replaced by \<open>last\<close> when it is empty or a
  bare marker tag; the marker tags are then removed from it and the white space
  around it is trimmed; the outcome is this cleaned text, or \<open>last\<close> itself when the
  cleaned text is empty and \<open>last\<close> is not. No turn count bounds the cycle: with a
  model that asks for a tool in every response the oldest variant never returns.
\<close>

theorem ProcessMessage_tool_calls:
  "(k < 3 \<and>
    (\<forall>i<k. \<exists>e. chat env (length (llm_requests w) + i) (generate_messages b msg) = Inl e \<and>
                   isRetryableError (Some e)) \<and>
    chat env (length (llm_requests w) + k) (generate_messages b msg) = Inr resp \<and>
    ToolCalls resp \<noteq> [] \<longrightarrow>
      llm_requests (snd (ProcessMessage b env msg w)) =
        llm_requests w @ replicate (Suc k) (generate_messages b msg) \<and>
      fst (ProcessMessage b env msg w) =
        (case fst (handleToolCalls b env (ToolCalls resp)
                     (w\<lparr>llm_requests := llm_requests w @ replicate (Suc k) (generate_messages b msg),
                        sleeps := sleeps w @ take k [Second, 2 * Second, 4 * Second]\<rparr>)) of
           Inl e \<Rightarrow> Inl (BridgeError ''handle_tools'' ''tool execution failed'' e)
         | Inr toolResults \<Rightarrow> Inr (output_text (hd toolResults))) \<and>
      llm_requests (snd (ProcessMessage_single b env msg w)) =
        llm_requests w @ replicate (Suc k) (generate_messages b msg) \<and>
      fst (ProcessMessage_single b env msg w) =
        (case fst (handleToolCalls_single b env (ToolCalls resp)
                     (w\<lparr>llm_requests := llm_requests w @ replicate (Suc k) (generate_messages b msg),
                        sleeps := sleeps w @ take k [Second, 2 * Second, 4 * Second]\<rparr>)) of
           Inl e \<Rightarrow> Inl (BridgeError ''handle_tools'' ''tool execution failed'' e)
         | Inr toolResults \<Rightarrow> Inr (output_text (hd toolResults)))) \<and>
   (k < 3 \<and>
    (\<forall>i<k. \<exists>e. chat env (length (llm_requests w) + i) (generate_messages b msg) = Inl e \<and>
                   isRetryableError (Some e)) \<and>
    chat env (length (llm_requests w) + k) (generate_messages b msg) = Inr (rs 0) \<and>
    ws 0 = w\<lparr>llm_requests := llm_requests w @ replicate (Suc k) (generate_messages b msg),
              sleeps := sleeps w @ take k [Second, 2 * Second, 4 * Second]\<rparr> \<and>
    0 < n \<and>
    (\<forall>i<n. ToolCalls (rs i) \<noteq> [] \<and>
            handleToolCalls_single b env (ToolCalls (rs i)) (ws i) = (Inr (results i), ds i) \<and>
            chat env (length (llm_requests (ds i))) (continue_messages b (results i)) = Inr (rs (Suc i)) \<and>
            ws (Suc i) = (ds i)\<lparr>llm_requests := llm_requests (ds i) @ [continue_messages b (results i)]\<rparr>) \<and>
    (\<forall>i<n. 0 < i \<longrightarrow>
            \<not> (Content (rs i) = [] \<or> Content (rs i) = ''<|im_start|>'' \<or> Content (rs i) = ''<|im_end|>'')) \<and>
    ((Content (rs n) = [] \<or> Content (rs n) = ''<|im_start|>'' \<or> Content (rs n) = ''<|im_end|>'') \<or>
     ToolCalls (rs n) = []) \<longrightarrow>
      ProcessMessage_loop b env msg w =
        Some (Inr (let lastToolResult = output_text (hd (results (n - 1)));
                       content = clean_content
                         (if Content (rs n) = [] \<or> Content (rs n) = ''<|im_start|>'' \<or>
                             Content (rs n) = ''<|im_end|>''
                          then lastToolResult else Content (rs n))
                   in if content = [] \<and> lastToolResult \<noteq> [] then lastToolResult else content),
              ws n)) \<and>
   ProcessMessage_loop price_bridge (endpoints_with insistent_model) msg w = None"
proof (intro conjI impI)
  let ?w1 = "w\<lparr>llm_requests := llm_requests w @ replicate (Suc k) (generate_messages b msg),
                sleeps := sleeps w @ take k [Second, 2 * Second, 4 * Second]\<rparr>"
  assume h: "k < 3 \<and>
    (\<forall>i<k. \<exists>e. chat env (length (llm_requests w) + i) (generate_messages b msg) = Inl e \<and>
                   isRetryableError (Some e)) \<and>
    chat env (length (llm_requests w) + k) (generate_messages b msg) = Inr resp \<and>
    ToolCalls resp \<noteq> []"
  then have tc: "ToolCalls resp \<noteq> []" by simp
  have loop: "retry_loop b env msg 0 Second None None w = (LoopEnd (Some resp) None, ?w1)"
    by (rule retry_loop_succeeds_at) (use h in blast)+
  have multi: "llm_requests (snd (ProcessMessage b env msg w)) = llm_requests ?w1 \<and>
      fst (ProcessMessage b env msg w) =
        (case fst (handleToolCalls b env (ToolCalls resp) ?w1) of
           Inl e \<Rightarrow> Inl (BridgeError ''handle_tools'' ''tool execution failed'' e)
         | Inr toolResults \<Rightarrow> Inr (output_text (hd toolResults)))"
    unfolding ProcessMessage_def
  proof (rule ProcessMessage_with_after_generation [OF loop tc])
    fix w r w' assume "handleToolCalls b env (ToolCalls resp) w = (r, w')"
    then show "llm_requests w' = llm_requests w"
      using handleToolCalls_from_frame by (simp add: handleToolCalls_def)
  next
    fix w rs w' assume "handleToolCalls b env (ToolCalls resp) w = (Inr rs, w')"
    then have "length rs = length (ToolCalls resp)"
      using handleToolCalls_from_length [of b env "ToolCalls resp" "[]" w rs w']
      by (simp add: handleToolCalls_def)
    with tc show "rs \<noteq> []" by auto
  qed
  have single: "llm_requests (snd (ProcessMessage_single b env msg w)) = llm_requests ?w1 \<and>
      fst (ProcessMessage_single b env msg w) =
        (case fst (handleToolCalls_single b env (ToolCalls resp) ?w1) of
           Inl e \<Rightarrow> Inl (BridgeError ''handle_tools'' ''tool execution failed'' e)
         | Inr toolResults \<Rightarrow> Inr (output_text (hd toolResults)))"
    unfolding ProcessMessage_single_def
  proof (rule ProcessMessage_with_after_generation [OF loop tc])
    fix w r w' assume "handleToolCalls_single b env (ToolCalls resp) w = (r, w')"
    then show "llm_requests w' = llm_requests w"
      using handleToolCalls_single_from_frame by (simp add: handleToolCalls_single_def)
  next
    fix w rs w' assume "handleToolCalls_single b env (ToolCalls resp) w = (Inr rs, w')"
    then have "length rs = length (ToolCalls resp)"
      using handleToolCalls_single_from_length [of b env "ToolCalls resp" "[]" w rs w']
      by (simp add: handleToolCalls_single_def)
    with tc show "rs \<noteq> []" by auto
  qed
  from multi show "llm_requests (snd (ProcessMessage b env msg w)) =
      llm_requests w @ replicate (Suc k) (generate_messages b msg)"
    by simp
  from multi show "fst (ProcessMessage b env msg w) =
        (case fst (handleToolCalls b env (ToolCalls resp) ?w1) of
           Inl e \<Rightarrow> Inl (BridgeError ''handle_tools'' ''tool execution failed'' e)
         | Inr toolResults \<Rightarrow> Inr (output_text (hd toolResults)))"
    by simp
  from single show "llm_requests (snd (ProcessMessage_single b env msg w)) =
      llm_requests w @ replicate (Suc k) (generate_messages b msg)"
    by simp
  from single show "fst (ProcessMessage_single b env msg w) =
        (case fst (handleToolCalls_single b env (ToolCalls resp) ?w1) of
           Inl e \<Rightarrow> Inl (BridgeError ''handle_tools'' ''tool execution failed'' e)
         | Inr toolResults \<Rightarrow> Inr (output_text (hd toolResults)))"
    by simp
next
  let ?w1 = "w\<lparr>llm_requests := llm_requests w @ replicate (Suc k) (generate_messages b msg),
                sleeps := sleeps w @ take k [Second, 2 * Second, 4 * Second]\<rparr>"
  assume h: "k < 3 \<and>
    (\<forall>i<k. \<exists>e. chat env (length (llm_requests w) + i) (generate_messages b msg) = Inl e \<and>
                   isRetryableError (Some e)) \<and>
    chat env (length (llm_requests w) + k) (generate_messages b msg) = Inr (rs 0) \<and>
    ws 0 = ?w1 \<and>
    0 < n \<and>
    (\<forall>i<n. ToolCalls (rs i) \<noteq> [] \<and>
            handleToolCalls_single b env (ToolCalls (rs i)) (ws i) = (Inr (results i), ds i) \<and>
            chat env (length (llm_requests (ds i))) (continue_messages b (results i)) = Inr (rs (Suc i)) \<and>
            ws (Suc i) = (ds i)\<lparr>llm_requests := llm_requests (ds i) @ [continue_messages b (results i)]\<rparr>) \<and>
    (\<forall>i<n. 0 < i \<longrightarrow>
            \<not> (Content (rs i) = [] \<or> Content (rs i) = ''<|im_start|>'' \<or> Content (rs i) = ''<|im_end|>'')) \<and>
    ((Content (rs n) = [] \<or> Content (rs n) = ''<|im_start|>'' \<or> Content (rs n) = ''<|im_end|>'') \<or>
     ToolCalls (rs n) = [])"
  have loop: "retry_loop b env msg 0 Second None None w = (LoopEnd (Some (rs 0)) None, ?w1)"
    by (rule retry_loop_succeeds_at) (use h in blast)+
  from h have w0: "ws 0 = ?w1" by blast
  have rounds: "tool_loop b env (rs 0) [] (ws 0) =
     Some (Inr (if Content (rs n) = [] \<or> Content (rs n) = ''<|im_start|>'' \<or> Content (rs n) = ''<|im_end|>''
                then (rs n)\<lparr>Content := output_text (hd (results (n - 1)))\<rparr> else rs n,
                output_text (hd (results (n - 1)))),
           ws n)"
    by (rule tool_loop_rounds [where ds = ds]) (use h in blast)+
  show "ProcessMessage_loop b env msg w =
        Some (Inr (let lastToolResult = output_text (hd (results (n - 1)));
                       content = clean_content
                         (if Content (rs n) = [] \<or> Content (rs n) = ''<|im_start|>'' \<or>
                             Content (rs n) = ''<|im_end|>''
                          then lastToolResult else Content (rs n))
                   in if content = [] \<and> lastToolResult \<noteq> [] then lastToolResult else content),
              ws n)"
    using rounds unfolding w0
    by (simp add: ProcessMessage_loop_def loop Let_def clean_content_Nil)
next
  show "ProcessMessage_loop price_bridge (endpoints_with insistent_model) msg w = None"
    by (rule ProcessMessage_loop_never_returns)
qed

text \<open>
  Claim C3 as stated fails on the multi-server bridge: the model asks for the users
  and would answer the continuation with \<^verbatim>\<open>Two users.\<close>, but the bridge returns the
  table after a single request to the model.
\<close>

theorem tool_calls_dispatched_once:
  "ProcessMessage price_bridge (endpoints_with tool_model) ''Who are the users?'' new_world =
     (Inr (formatDatabaseResult
             [[(''name'', VString ''Alice Smith''), (''email'', VString ''alice@example.com'')],
              [(''name'', VString ''Dave Black'')]]),
      new_world\<lparr>llm_requests := [generate_messages price_bridge ''Who are the users?''],
                queries := [''SELECT name, email FROM users'']\<rparr>)"
proof -
  have w0: "llm_requests new_world = []" "queries new_world = []"
    by (simp_all add: new_world_def)
  have gen: "chat (endpoints_with tool_model) (length (llm_requests new_world))
               (generate_messages price_bridge ''Who are the users?'') =
             Inr \<lparr>Content = [], ToolCalls = [users_call]\<rparr>"
    by (simp add: endpoints_with_def tool_model_def w0)
  show ?thesis
    by (simp add: ProcessMessage_def ProcessMessage_with_def retry_first_success [OF gen]
          handleToolCalls_def handleDatabaseTool_def price_bridge_toolMap price_bridge_dbTool
          users_call_def users_table w0)
qed

text \<open>The model that times out once and asks for the users three times, on the three
  variants: the oldest one runs two rounds and returns the cleaned table.\<close>

theorem ProcessMessage_tool_calls_witness:
  "fst (ProcessMessage price_bridge (endpoints_with retrying_tool_model) ''Who are the users?'' new_world) =
     Inr (formatDatabaseResult
            [[(''name'', VString ''Alice Smith''), (''email'', VString ''alice@example.com'')],
             [(''name'', VString ''Dave Black'')]]) \<and>
   llm_requests (snd (ProcessMessage price_bridge (endpoints_with retrying_tool_model)
                        ''Who are the users?'' new_world)) =
     [generate_messages price_bridge ''Who are the users?'',
      generate_messages price_bridge ''Who are the users?''] \<and>
   fst (ProcessMessage_single price_bridge (endpoints_with retrying_tool_model)
          ''Who are the users?'' new_world) =
     Inr (format_table fixed_columns
            [[(''name'', VString ''Alice Smith''), (''email'', VString ''alice@example.com'')],
             [(''name'', VString ''Dave Black'')]]) \<and>
   map_option fst (ProcessMessage_loop price_bridge (endpoints_with retrying_tool_model)
                     ''Who are the users?'' new_world) =
     Some (Inr (''ID  USER_ID  PRODUCT  PRICE  CREATED_AT  '' @ [CHR 0x0A] @
                ''--  -------  -------  -----  ----------'')) \<and>
   map_option (\<lambda>r. (length (llm_requests (snd r)), queries (snd r), sleeps (snd r)))
     (ProcessMessage_loop price_bridge (endpoints_with retrying_tool_model)
        ''Who are the users?'' new_world) =
     Some (4, [''SELECT name, email FROM users'', ''SELECT name, email FROM users''], [Second])"
proof -
  let ?b = price_bridge
  let ?env = "endpoints_with retrying_tool_model"
  let ?msg = "''Who are the users?''"
  let ?q = "''SELECT name, email FROM users''"
  let ?rows = "[[(''name'', VString ''Alice Smith''), (''email'', VString ''alice@example.com'')],
                [(''name'', VString ''Dave Black'')]]"
  let ?R0 = "\<lparr>Content = [], ToolCalls = [users_call]\<rparr>"
  let ?R1 = "\<lparr>Content = ''Checking again.'', ToolCalls = [users_call]\<rparr>"
  let ?results = "[\<lparr>tool_call_id = ''call_1'', output_text = format_table fixed_columns ?rows\<rparr>]"
  let ?w1 = "new_world\<lparr>llm_requests := llm_requests new_world @
                          replicate (Suc 1) (generate_messages ?b ?msg),
                        sleeps := sleeps new_world @ take 1 [Second, 2 * Second, 4 * Second]\<rparr>"
  let ?d0 = "?w1\<lparr>queries := queries ?w1 @ [?q]\<rparr>"
  let ?w2 = "?d0\<lparr>llm_requests := llm_requests ?d0 @ [continue_messages ?b ?results]\<rparr>"
  let ?d1 = "?w2\<lparr>queries := queries ?w2 @ [?q]\<rparr>"
  let ?w3 = "?d1\<lparr>llm_requests := llm_requests ?d1 @ [continue_messages ?b ?results]\<rparr>"
  let ?rs = "\<lambda>i::nat. if i = 0 then ?R0 else if i = 1 then ?R1 else ?R0"
  let ?ws = "\<lambda>i::nat. if i = 0 then ?w1 else if i = 1 then ?w2 else ?w3"
  let ?ds = "\<lambda>i::nat. if i = 0 then ?d0 else ?d1"
  let ?res = "\<lambda>i::nat. ?results"
  have w0: "llm_requests new_world = []" "queries new_world = []" "sleeps new_world = []"
    by (simp_all add: new_world_def)
  have retries: "\<forall>i<1. \<exists>e. chat ?env (length (llm_requests new_world) + i) (generate_messages ?b ?msg) = Inl e \<and>
                   isRetryableError (Some e)"
    by (simp add: endpoints_with_def retrying_tool_model_def w0 isRetryableError.simps)
  have gen: "chat ?env (length (llm_requests new_world) + 1) (generate_messages ?b ?msg) = Inr ?R0"
    by (simp add: endpoints_with_def retrying_tool_model_def w0)
  have multi: "fst (handleToolCalls ?b ?env [users_call] w) =
      Inr [\<lparr>tool_call_id = ''call_1'', output_text = formatDatabaseResult ?rows\<rparr>]" for w
    by (simp add: handleToolCalls_def handleDatabaseTool_def price_bridge_toolMap price_bridge_dbTool
          users_call_def users_table)
  have single: "fst (handleToolCalls_single ?b ?env [users_call] w) = Inr ?results" for w
    by (simp add: users_dispatch_single)
  have steps: "\<forall>i<2. ToolCalls (?rs i) \<noteq> [] \<and>
            handleToolCalls_single ?b ?env (ToolCalls (?rs i)) (?ws i) = (Inr (?res i), ?ds i) \<and>
            chat ?env (length (llm_requests (?ds i))) (continue_messages ?b (?res i)) = Inr (?rs (Suc i)) \<and>
            ?ws (Suc i) = (?ds i)\<lparr>llm_requests := llm_requests (?ds i) @ [continue_messages ?b (?res i)]\<rparr>"
  proof (intro allI impI)
    fix i :: nat
    assume "i < 2"
    then consider "i = 0" | "i = 1" by linarith
    then show "ToolCalls (?rs i) \<noteq> [] \<and>
            handleToolCalls_single ?b ?env (ToolCalls (?rs i)) (?ws i) = (Inr (?res i), ?ds i) \<and>
            chat ?env (length (llm_requests (?ds i))) (continue_messages ?b (?res i)) = Inr (?rs (Suc i)) \<and>
            ?ws (Suc i) = (?ds i)\<lparr>llm_requests := llm_requests (?ds i) @ [continue_messages ?b (?res i)]\<rparr>"
    proof cases
      case 1
      then show ?thesis
        by (simp add: users_dispatch_single endpoints_with_def retrying_tool_model_def w0)
    next
      case 2
      then show ?thesis
        by (simp add: users_dispatch_single endpoints_with_def retrying_tool_model_def w0)
    qed
  qed
  have mid: "\<forall>i<2. 0 < i \<longrightarrow>
            \<not> (Content (?rs i) = [] \<or> Content (?rs i) = ''<|im_start|>'' \<or> Content (?rs i) = ''<|im_end|>'')"
    by simp
  have fin: "(Content (?rs 2) = [] \<or> Content (?rs 2) = ''<|im_start|>'' \<or> Content (?rs 2) = ''<|im_end|>'') \<or>
     ToolCalls (?rs 2) = []"
    by simp
  note inst = ProcessMessage_tool_calls [where k = 1 and env = ?env and w = new_world and b = ?b
      and msg = ?msg and resp = ?R0 and rs = ?rs and ws = ?ws and n = 2 and results = ?res and ds = ?ds]
  have part1: "llm_requests (snd (ProcessMessage ?b ?env ?msg new_world)) =
        llm_requests new_world @ replicate (Suc 1) (generate_messages ?b ?msg) \<and>
      fst (ProcessMessage ?b ?env ?msg new_world) =
        (case fst (handleToolCalls ?b ?env (ToolCalls ?R0) ?w1) of
           Inl e \<Rightarrow> Inl (BridgeError ''handle_tools'' ''tool execution failed'' e)
         | Inr toolResults \<Rightarrow> Inr (output_text (hd toolResults))) \<and>
      llm_requests (snd (ProcessMessage_single ?b ?env ?msg new_world)) =
        llm_requests new_world @ replicate (Suc 1) (generate_messages ?b ?msg) \<and>
      fst (ProcessMessage_single ?b ?env ?msg new_world) =
        (case fst (handleToolCalls_single ?b ?env (ToolCalls ?R0) ?w1) of
           Inl e \<Rightarrow> Inl (BridgeError ''handle_tools'' ''tool execution failed'' e)
         | Inr toolResults \<Rightarrow> Inr (output_text (hd toolResults)))"
    by (rule inst [THEN conjunct1, rule_format]) (use retries gen in simp)
  have part2: "ProcessMessage_loop ?b ?env ?msg new_world =
        Some (Inr (let lastToolResult = output_text (hd (?res (2 - 1)));
                       content = clean_content
                         (if Content (?rs 2) = [] \<or> Content (?rs 2) = ''<|im_start|>'' \<or>
                             Content (?rs 2) = ''<|im_end|>''
                          then lastToolResult else Content (?rs 2))
                   in if content = [] \<and> lastToolResult \<noteq> [] then lastToolResult else content),
              ?ws 2)"
    by (rule inst [THEN conjunct2, THEN conjunct1, rule_format])
       (use retries gen steps mid fin in \<open>intro conjI\<close>, simp_all)
  have out: "clean_content (format_table fixed_columns ?rows) =
      ''ID  USER_ID  PRODUCT  PRICE  CREATED_AT  '' @ [CHR 0x0A] @
      ''--  -------  -------  -----  ----------''"
    unfolding users_fixed_table by (rule users_fixed_table_cleaned)
  from part1 have
    "fst (ProcessMessage ?b ?env ?msg new_world) = Inr (formatDatabaseResult ?rows) \<and>
     llm_requests (snd (ProcessMessage ?b ?env ?msg new_world)) =
       [generate_messages ?b ?msg, generate_messages ?b ?msg] \<and>
     fst (ProcessMessage_single ?b ?env ?msg new_world) = Inr (format_table fixed_columns ?rows)"
    by (simp add: multi single w0)
  moreover from part2 have
    "ProcessMessage_loop ?b ?env ?msg new_world =
       Some (Inr (''ID  USER_ID  PRODUCT  PRICE  CREATED_AT  '' @ [CHR 0x0A] @
                  ''--  -------  -------  -----  ----------''), ?w3)"
    by (simp add: Let_def out)
  then have
    "map_option fst (ProcessMessage_loop ?b ?env ?msg new_world) =
       Some (Inr (''ID  USER_ID  PRODUCT  PRICE  CREATED_AT  '' @ [CHR 0x0A] @
                  ''--  -------  -------  -----  ----------'')) \<and>
     map_option (\<lambda>r. (length (llm_requests (snd r)), queries (snd r), sleeps (snd r)))
       (ProcessMessage_loop ?b ?env ?msg new_world) =
       Some (4, [?q, ?q], [Second])"
    by (simp add: w0)
  ultimately show ?thesis by simp
qed

end
